theory Spec2Isabelle
  imports Main "HOL-Library.Word"
begin

unbundle bit_operations_syntax

section \<open>Data model of driver/spi\_flash.c\<close>

text \<open>
  The driver runs on a 32-bit ARM core: \<open>unsigned char\<close> is an 8-bit word,
  \<open>unsigned short\<close> a 16-bit word, \<open>unsigned int\<close> and \<open>unsigned long\<close> 32-bit words.
  Return codes of type \<open>int\<close> are kept as \<open>int\<close>: the code only produces and compares
  the small constants 0, 1, -1 and -2 and whatever the external parsers hand back.
\<close>

type_synonym u8 = "8 word"
type_synonym u16 = "16 word"
type_synonym u32 = "32 word"

definition CMD_READ_DEV_ID :: u8 where "CMD_READ_DEV_ID = 0x9f"
definition CMD_READ_ARRAY_FAST :: u8 where "CMD_READ_ARRAY_FAST = 0x0b"

definition MANUFACTURER_ID_ATMEL :: u8 where "MANUFACTURER_ID_ATMEL = 0x1f"
definition MANUFACTURER_ID_MICRON :: u8 where "MANUFACTURER_ID_MICRON = 0x20"
definition MANUFACTURER_ID_WINBOND :: u8 where "MANUFACTURER_ID_WINBOND = 0xef"

definition DF_FAMILY_AT26F :: u8 where "DF_FAMILY_AT26F = 0x00"
definition DF_FAMILY_AT45 :: u8 where "DF_FAMILY_AT45 = 0x20"
definition DF_FAMILY_AT26DF :: u8 where "DF_FAMILY_AT26DF = 0x40"
definition DF_FAMILY_N25Q :: u8 where "DF_FAMILY_N25Q = 0xA0"
definition DF_FAMILY_M25P :: u8 where "DF_FAMILY_M25P = 0x20"
definition WINBOND_W25Q128JV :: u8 where "WINBOND_W25Q128JV = 0x40"

definition DENSITY_AT45DB011D :: u8 where "DENSITY_AT45DB011D = 0x0C"
definition DENSITY_AT45DB021D :: u8 where "DENSITY_AT45DB021D = 0x14"
definition DENSITY_AT45DB041D :: u8 where "DENSITY_AT45DB041D = 0x1C"
definition DENSITY_AT45DB081D :: u8 where "DENSITY_AT45DB081D = 0x24"
definition DENSITY_AT45DB161D :: u8 where "DENSITY_AT45DB161D = 0x2C"
definition DENSITY_AT45DB321D :: u8 where "DENSITY_AT45DB321D = 0x34"
definition DENSITY_AT45DB642D :: u8 where "DENSITY_AT45DB642D = 0x3C"
definition DENSITY_AT45DB1282D :: u8 where "DENSITY_AT45DB1282D = 0x10"
definition DENSITY_AT45DB2562D :: u8 where "DENSITY_AT45DB2562D = 0x18"
definition DENSITY_AT45DB5122D :: u8 where "DENSITY_AT45DB5122D = 0x20"

definition CMD_READ_STATUS_AT45 :: u8 where "CMD_READ_STATUS_AT45 = 0xd7"
definition STATUS_PAGE_SIZE_AT45 :: u8 where "STATUS_PAGE_SIZE_AT45 = push_bit 0 1"
definition STATUS_READY_AT45 :: u8 where "STATUS_READY_AT45 = push_bit 7 1"

definition CMD_ERASE_BLOCK4K_AT25 :: u8 where "CMD_ERASE_BLOCK4K_AT25 = 0x20"
definition CMD_WRITE_ENABLE_AT25 :: u8 where "CMD_WRITE_ENABLE_AT25 = 0x06"
definition CMD_READ_STATUS_AT25 :: u8 where "CMD_READ_STATUS_AT25 = 0x05"
definition CMD_WRITE_STATUS_AT25 :: u8 where "CMD_WRITE_STATUS_AT25 = 0x01"
definition CMD_ERASE_PAGE_AT45 :: u8 where "CMD_ERASE_PAGE_AT45 = 0x81"

definition STATUS_READY_AT25 :: u8 where "STATUS_READY_AT25 = push_bit 0 1"
definition STATUS_SWP_AT25 :: u8 where "STATUS_SWP_AT25 = push_bit 2 3"
definition STATUS_SPRL_AT25 :: u8 where "STATUS_SPRL_AT25 = push_bit 7 1"

text \<open>\<open>struct dataflash_descriptor\<close>, field by field.\<close>

record dataflash_descriptor =
  family :: u8
  pages :: u32
  page_size :: u32
  page_offset :: u32
  is_power_2 :: u8
  is_spinor :: u8

text \<open>The descriptor after \<open>memset(df_desc, 0, sizeof(*df_desc))\<close>.\<close>

definition zero_descriptor :: dataflash_descriptor where
  "zero_descriptor =
     \<lparr>family = 0, pages = 0, page_size = 0, page_offset = 0, is_power_2 = 0, is_spinor = 0\<rparr>"

section \<open>The machine outside the driver\<close>

text \<open>
  Everything the driver touches but does not own is one explicit state value.
  \<^item> \<open>spi_in\<close> is the sequence of bytes the receive register will deliver:
    \<open>spi_in w k\<close> is what the \<open>k\<close>-th call of \<open>at91_spi_read_spi\<close> returns, and
    \<open>spi_pos\<close> counts the calls made so far. Leaving the sequence arbitrary covers
    every possible behaviour of the attached part.
  \<^item> \<open>spi_log\<close> records the bytes shifted out, one list per chip-select bracket.
  \<^item> \<open>ram\<close> is the memory the payloads are copied to, byte-addressed.
  \<^item> \<open>recovery_pin\<close> is what \<open>pio_get_value(CONFIG_SYS_RECOVERY_BUTTON_PIN)\<close> reads
    and \<open>spi_init_ret\<close> what \<open>at91_spi_init\<close> returns.
  \<^item> \<open>junk_cmd4\<close> and \<open>junk_dev_id5\<close> are the indeterminate bytes the code reads from
    its own stack: \<open>cmd[4]\<close>, never written by \<open>spinor_read_array\<close>, and the byte
    behind \<open>dev_id[4]\<close>, which a six-byte \<open>memcmp\<close> reaches. \<open>junk_shift\<close> is what
    a shift by 32 or more leaves in the result.
\<close>

record world =
  spi_in :: "nat \<Rightarrow> u8"
  spi_pos :: nat
  spi_log :: "u8 list list"
  spi_cs :: bool
  spi_enabled :: bool
  ram :: "u32 \<Rightarrow> u8"
  recovery_pin :: int
  spi_init_ret :: int
  junk_cmd4 :: u8
  junk_dev_id5 :: u8
  junk_shift :: u32

definition at91_spi_cs_activate :: "world \<Rightarrow> world" where
  "at91_spi_cs_activate w = w\<lparr>spi_cs := True, spi_log := spi_log w @ [[]]\<rparr>"

definition at91_spi_cs_deactivate :: "world \<Rightarrow> world" where
  "at91_spi_cs_deactivate w = w\<lparr>spi_cs := False\<rparr>"

definition at91_spi_read_sr :: "world \<Rightarrow> world" where
  "at91_spi_read_sr w = w"

definition at91_spi_write_data :: "u8 \<Rightarrow> world \<Rightarrow> world" where
  "at91_spi_write_data b w =
     w\<lparr>spi_log := (if spi_log w = [] then [[b]]
                    else butlast (spi_log w) @ [last (spi_log w) @ [b]])\<rparr>"

definition at91_spi_read_spi :: "world \<Rightarrow> u8 \<times> world" where
  "at91_spi_read_spi w = (spi_in w (spi_pos w), w\<lparr>spi_pos := Suc (spi_pos w)\<rparr>)"

definition at91_spi_enable :: "world \<Rightarrow> world" where
  "at91_spi_enable w = w\<lparr>spi_enabled := True\<rparr>"

definition at91_spi_disable :: "world \<Rightarrow> world" where
  "at91_spi_disable w = w\<lparr>spi_enabled := False\<rparr>"

section \<open>Transaction primitive: \<open>df_send_command\<close>\<close>

text \<open>The first loop: each command byte is written, and the byte shifted in is dropped.\<close>

fun send_cmd_bytes :: "u8 list \<Rightarrow> world \<Rightarrow> world" where
  "send_cmd_bytes [] w = w"
| "send_cmd_bytes (b # bs) w =
     send_cmd_bytes bs (snd (at91_spi_read_spi (at91_spi_write_data b w)))"

text \<open>The second loop: a zero is written for each data byte and the byte shifted in is kept.\<close>

fun recv_data_bytes :: "nat \<Rightarrow> world \<Rightarrow> u8 list \<times> world" where
  "recv_data_bytes 0 w = ([], w)"
| "recv_data_bytes (Suc n) w =
     (let (b, w1) = at91_spi_read_spi (at91_spi_write_data 0 w);
          (bs, w2) = recv_data_bytes n w1
      in (b # bs, w2))"

text \<open>
  \<open>cmd\<close> is \<open>None\<close> for a null pointer; \<open>cmd_len\<close> is an \<open>unsigned char\<close>;
  \<open>data\<close> tells whether the data pointer is non-null, and \<open>data_len\<close> is the value
  of the \<open>unsigned int\<close> argument. The bytes received are returned to the caller,
  who owns the buffer they are stored in (a local variable or \<open>ram\<close>).
\<close>

definition df_send_command ::
  "u8 list option \<Rightarrow> u8 \<Rightarrow> bool \<Rightarrow> nat \<Rightarrow> world \<Rightarrow> int \<times> u8 list \<times> world" where
  "df_send_command cmd cmd_len data data_len w =
     (case cmd of
        None \<Rightarrow> (-1, [], w)
      | Some c \<Rightarrow>
          if cmd_len = 0 then (-1, [], w)
          else if data_len \<noteq> 0 \<and> \<not> data then (-1, [], w)
          else
            (let w1 = at91_spi_read_sr (at91_spi_cs_activate w);
                 w2 = send_cmd_bytes (take (unat cmd_len) c) w1;
                 (bytes, w3) = recv_data_bytes data_len w2
             in (0, bytes, at91_spi_cs_deactivate w3)))"

section \<open>Address translator and read path\<close>

text \<open>
  Modelled from the spec: \<open>division\<close> is declared in div.h, which is not part of the
  sources at hand. The spec describes the split as integer division with remainder:
  the quotient is the page index, the remainder the byte within the page.
\<close>

definition division :: "u32 \<Rightarrow> u32 \<Rightarrow> u32 \<times> u32" where
  "division dividend divisor = (dividend div divisor, dividend mod divisor)"

text \<open>
  \<open>x << n\<close> on \<open>unsigned int\<close>. A shift by 32 or more is undefined in C; the model
  then yields \<open>junk_shift\<close>, a value nothing is known about.
\<close>

definition shl :: "u32 \<Rightarrow> u32 \<Rightarrow> world \<Rightarrow> u32" where
  "shl x n w = (if unat n < 32 then push_bit (unat n) x else junk_shift w)"

text \<open>Lines 118 to 126 of \<open>dataflash_read_array\<close>: the device address.\<close>

definition dataflash_address :: "dataflash_descriptor \<Rightarrow> u32 \<Rightarrow> world \<Rightarrow> u32" where
  "dataflash_address df_desc offset w =
     (if is_power_2 df_desc = 0 then
        (let page_shift = page_offset df_desc;
             psize = page_size df_desc;
             (page_addr, byte_addr) = division offset psize
         in shl page_addr page_shift w + byte_addr)
      else offset)"

text \<open>Lines 128 to 142: the five command bytes.\<close>

definition dataflash_read_cmd :: "dataflash_descriptor \<Rightarrow> u32 \<Rightarrow> world \<Rightarrow> u8 list" where
  "dataflash_read_cmd df_desc offset w =
     (let address = dataflash_address df_desc offset w
      in if pages df_desc > 16384 then
           [CMD_READ_ARRAY_FAST,
            ucast (drop_bit 24 address), ucast (drop_bit 16 address),
            ucast (drop_bit 8 address), ucast address]
         else
           [CMD_READ_ARRAY_FAST,
            ucast (drop_bit 16 address), ucast (drop_bit 8 address),
            ucast address, 0x00])"

text \<open>\<open>spinor_read_array\<close> fills four bytes only; the fifth is whatever the stack holds.\<close>

definition spinor_read_cmd :: "dataflash_descriptor \<Rightarrow> u32 \<Rightarrow> world \<Rightarrow> u8 list" where
  "spinor_read_cmd df_desc offset w =
     (let address = offset
      in [CMD_READ_ARRAY_FAST,
          ucast (drop_bit 16 address), ucast (drop_bit 8 address),
          ucast address, junk_cmd4 w])"

text \<open>
  Both read functions end alike: the five bytes go to \<open>df_send_command\<close> with the
  caller's buffer, and the bytes of the data phase land at \<open>buf\<close>, \<open>buf + 1\<close>, ...
\<close>

fun store_bytes :: "u32 \<Rightarrow> u8 list \<Rightarrow> (u32 \<Rightarrow> u8) \<Rightarrow> (u32 \<Rightarrow> u8)" where
  "store_bytes a [] m = m"
| "store_bytes a (b # bs) m = store_bytes (a + 1) bs (m(a := b))"

definition read_with_cmd :: "u8 list \<Rightarrow> u32 \<Rightarrow> u32 \<Rightarrow> world \<Rightarrow> int \<times> world" where
  "read_with_cmd cmd len buf w =
     (let (ret, bytes, w1) = df_send_command (Some cmd) 5 (buf \<noteq> 0) (unat len) w
      in if ret \<noteq> 0 then (-1, w1)
         else (0, w1\<lparr>ram := store_bytes buf bytes (ram w1)\<rparr>))"

definition dataflash_read_array ::
  "dataflash_descriptor \<Rightarrow> u32 \<Rightarrow> u32 \<Rightarrow> u32 \<Rightarrow> world \<Rightarrow> int \<times> world" where
  "dataflash_read_array df_desc offset len buf w =
     read_with_cmd (dataflash_read_cmd df_desc offset w) len buf w"

definition spinor_read_array ::
  "dataflash_descriptor \<Rightarrow> u32 \<Rightarrow> u32 \<Rightarrow> u32 \<Rightarrow> world \<Rightarrow> int \<times> world" where
  "spinor_read_array df_desc offset len buf w =
     read_with_cmd (spinor_read_cmd df_desc offset w) len buf w"

definition read_array ::
  "dataflash_descriptor \<Rightarrow> u32 \<Rightarrow> u32 \<Rightarrow> u32 \<Rightarrow> world \<Rightarrow> int \<times> world" where
  "read_array df_desc offset len buf w =
     (if is_spinor df_desc = 0 then dataflash_read_array df_desc offset len buf w
      else spinor_read_array df_desc offset len buf w)"

text \<open>The command \<open>read_array\<close> hands to the transaction primitive.\<close>

definition read_array_cmd :: "dataflash_descriptor \<Rightarrow> u32 \<Rightarrow> world \<Rightarrow> u8 list" where
  "read_array_cmd df_desc offset w =
     (if is_spinor df_desc = 0 then dataflash_read_cmd df_desc offset w
      else spinor_read_cmd df_desc offset w)"

section \<open>Status readers\<close>

text \<open>
  Both readers are declared \<open>unsigned char\<close>: a failure code of the transaction is
  truncated to eight bits on the way out. The result is \<open>Inl\<close> of that code when the
  transaction failed (the status byte is then not written) and \<open>Inr\<close> of the status byte
  otherwise.
\<close>

definition df_read_status_at45 :: "world \<Rightarrow> (int + u8) \<times> world" where
  "df_read_status_at45 w =
     (let (ret, bytes, w1) = df_send_command (Some [CMD_READ_STATUS_AT45]) 1 True 1 w
      in if ret \<noteq> 0 then (Inl (uint (word_of_int ret :: u8)), w1)
         else (Inr (hd bytes), w1))"

definition df_read_status_at25 :: "world \<Rightarrow> (int + u8) \<times> world" where
  "df_read_status_at25 w =
     (let (ret, bytes, w1) = df_send_command (Some [CMD_READ_STATUS_AT25]) 1 True 1 w
      in if ret \<noteq> 0 then (Inl (uint (word_of_int ret :: u8)), w1)
         else (Inr (hd bytes), w1))"

section \<open>Recovery engine\<close>

text \<open>\<open>ret = f(); if (ret) return ret;\<close> followed by the rest of the function.\<close>

definition then_ok ::
  "(world \<Rightarrow> int \<times> world) \<Rightarrow> (world \<Rightarrow> int \<times> world) \<Rightarrow> world \<Rightarrow> int \<times> world" where
  "then_ok f g w = (let (ret, w1) = f w in if ret \<noteq> 0 then (ret, w1) else g w1)"

definition at25_cmd_write_enbale :: "world \<Rightarrow> int \<times> world" where
  "at25_cmd_write_enbale w =
     (let (ret, bytes, w1) = df_send_command (Some [CMD_WRITE_ENABLE_AT25]) 1 False 0 w
      in if ret \<noteq> 0 then (ret, w1) else (0, w1))"

definition at25_cmd_write_status_register :: "u8 \<Rightarrow> world \<Rightarrow> int \<times> world" where
  "at25_cmd_write_status_register status w =
     (let (ret, bytes, w1) =
            df_send_command (Some [CMD_WRITE_STATUS_AT25, status]) 2 False 0 w
      in if ret \<noteq> 0 then (ret, w1) else (0, w1))"

definition at25_unprotect :: "world \<Rightarrow> int \<times> world" where
  "at25_unprotect w =
     (case df_read_status_at25 w of
        (Inl ret, w1) \<Rightarrow> (ret, w1)
      | (Inr status, w1) \<Rightarrow>
          if status AND STATUS_SWP_AT25 = 0 then (0, w1)
          else
            then_ok
              (if status AND STATUS_SPRL_AT25 \<noteq> 0
               then then_ok at25_cmd_write_enbale (at25_cmd_write_status_register 0)
               else (\<lambda>w. (0, w)))
              (then_ok at25_cmd_write_enbale
                (then_ok (at25_cmd_write_status_register 0)
                  (\<lambda>w4. case df_read_status_at25 w4 of
                           (Inl ret, w5) \<Rightarrow> (ret, w5)
                         | (Inr status, w5) \<Rightarrow>
                             if status AND (STATUS_SPRL_AT25 OR STATUS_SWP_AT25) \<noteq> 0
                             then (-1, w5) else (0, w5))))
              w1)"

text \<open>\<open>udelay\<close> busy-waits; it changes nothing the driver can observe.\<close>

definition udelay :: "nat \<Rightarrow> world \<Rightarrow> world" where
  "udelay usec w = w"

text \<open>
  The \<open>do ... while (--timeout)\<close> loop of \<open>dataflash_page0_erase_at25\<close>, with
  \<open>timeout\<close> an \<open>unsigned int\<close>. \<open>Inl ret\<close> is the \<open>return ret\<close> inside the loop;
  \<open>Inr t\<close> is leaving the loop with \<open>timeout = t\<close>.
\<close>

function at25_poll :: "u32 \<Rightarrow> world \<Rightarrow> (int + u32) \<times> world" where
  "at25_poll timeout w =
     (case df_read_status_at25 w of
        (Inl ret, w1) \<Rightarrow> (Inl ret, w1)
      | (Inr status, w1) \<Rightarrow>
          if status AND STATUS_READY_AT25 = 0 then (Inr timeout, w1)
          else if timeout - 1 \<noteq> 0 then at25_poll (timeout - 1) w1
          else (Inr (timeout - 1), w1))"
  by pat_completeness auto
termination
proof (relation "measure (\<lambda>(t, w). unat (t - 1))")
  show "wf (measure (\<lambda>(t :: u32, w :: world). unat (t - 1)))" by simp
next
  fix timeout :: u32 and w :: world and x xa y xb
  define t where "t = timeout - 1"
  assume "timeout - 1 \<noteq> 0"
  then have "t \<noteq> 0" by (simp add: t_def)
  then have "unat (t - 1) < unat t"
    by (simp add: unat_minus_one unat_gt_0)
  then show "((timeout - 1, y), timeout, w) \<in> measure (\<lambda>(t, w). unat (t - 1))"
    by (simp add: t_def)
qed

declare at25_poll.simps [simp del]

text \<open>Lines 361 to 377: the delay, the loop and the check of \<open>timeout\<close> after it.\<close>

definition at25_wait_erase :: "world \<Rightarrow> int \<times> world" where
  "at25_wait_erase w =
     (case at25_poll 1000 (udelay 33000 w) of
        (Inl ret, w4) \<Rightarrow> (ret, w4)
      | (Inr timeout, w4) \<Rightarrow> if timeout = 0 then (-1, w4) else (0, w4))"

definition dataflash_page0_erase_at25 :: "world \<Rightarrow> int \<times> world" where
  "dataflash_page0_erase_at25 w =
     then_ok at25_unprotect
       (then_ok at25_cmd_write_enbale
         (\<lambda>w2.
            let (ret, bytes, w3) =
                  df_send_command (Some [CMD_ERASE_BLOCK4K_AT25, 0, 0, 0]) 4 False 0 w2
            in if ret \<noteq> 0 then (ret, w3) else at25_wait_erase w3))
       w"

text \<open>
  The loop of \<open>dataflash_page0_erase_at45\<close>. It leaves with the last status read,
  which the check after the loop looks at again.
\<close>

function at45_poll :: "u32 \<Rightarrow> world \<Rightarrow> (int + u8) \<times> world" where
  "at45_poll timeout w =
     (case df_read_status_at45 w of
        (Inl ret, w1) \<Rightarrow> (Inl ret, w1)
      | (Inr status, w1) \<Rightarrow>
          if status AND STATUS_READY_AT45 \<noteq> 0 then (Inr status, w1)
          else if timeout - 1 \<noteq> 0 then at45_poll (timeout - 1) w1
          else (Inr status, w1))"
  by pat_completeness auto
termination
proof (relation "measure (\<lambda>(t, w). unat (t - 1))")
  show "wf (measure (\<lambda>(t :: u32, w :: world). unat (t - 1)))" by simp
next
  fix timeout :: u32 and w :: world and x xa y xb
  define t where "t = timeout - 1"
  assume "timeout - 1 \<noteq> 0"
  then have "t \<noteq> 0" by (simp add: t_def)
  then have "unat (t - 1) < unat t"
    by (simp add: unat_minus_one unat_gt_0)
  then show "((timeout - 1, y), timeout, w) \<in> measure (\<lambda>(t, w). unat (t - 1))"
    by (simp add: t_def)
qed

declare at45_poll.simps [simp del]

text \<open>Lines 398 to 414: the delay, the loop and the check of the last status after it.\<close>

definition at45_wait_erase :: "world \<Rightarrow> int \<times> world" where
  "at45_wait_erase w =
     (case at45_poll 1000 (udelay 33000 w) of
        (Inl ret, w2) \<Rightarrow> (ret, w2)
      | (Inr status, w2) \<Rightarrow>
          if status AND STATUS_READY_AT45 = 0 then (-1, w2) else (0, w2))"

definition dataflash_page0_erase_at45 :: "world \<Rightarrow> int \<times> world" where
  "dataflash_page0_erase_at45 w =
     (let (ret, bytes, w1) =
            df_send_command (Some [CMD_ERASE_PAGE_AT45, 0, 0, 0]) 4 False 0 w
      in if ret \<noteq> 0 then (ret, w1) else at45_wait_erase w1)"

definition pio_get_value :: "world \<Rightarrow> int" where
  "pio_get_value w = recovery_pin w"

definition dataflash_recovery :: "dataflash_descriptor \<Rightarrow> world \<Rightarrow> int \<times> world" where
  "dataflash_recovery df_desc w =
     (if pio_get_value w = 0 then
        (let (ret, w1) =
               (if family df_desc = DF_FAMILY_AT26F \<or> family df_desc = DF_FAMILY_AT26DF
                then dataflash_page0_erase_at25 w
                else dataflash_page0_erase_at45 w)
         in if ret \<noteq> 0 then (ret, w1) else (0, w1))
      else (-1, w))"

section \<open>Descriptor resolver\<close>

definition w_25q128_desc_init :: "dataflash_descriptor \<Rightarrow> int \<times> dataflash_descriptor" where
  "w_25q128_desc_init df_desc =
     (0, df_desc\<lparr>pages := 346, page_size := 256, page_offset := 0, is_spinor := 1\<rparr>)"

definition df_n25q_desc_init :: "dataflash_descriptor \<Rightarrow> int \<times> dataflash_descriptor" where
  "df_n25q_desc_init df_desc =
     (0, df_desc\<lparr>pages := 16384, page_size := 256, page_offset := 0, is_spinor := 1\<rparr>)"

text \<open>
  The \<open>switch\<close> of \<open>df_at45_desc_init\<close> on the density bits, after \<open>is_power_2\<close> has
  been set from the page-size bit. The three larger densities are commented out in the
  source and fall to \<open>default\<close>.
\<close>

definition df_at45_decode ::
  "u8 \<Rightarrow> dataflash_descriptor \<Rightarrow> int \<times> dataflash_descriptor" where
  "df_at45_decode status df_desc =
     (let d1 = df_desc\<lparr>is_power_2 :=
                 (if status AND STATUS_PAGE_SIZE_AT45 \<noteq> 0 then 1 else 0)\<rparr>;
          density = status AND 0x3c
      in if density = DENSITY_AT45DB011D then
           (0, d1\<lparr>pages := 512, page_size := 264, page_offset := 9\<rparr>)
         else if density = DENSITY_AT45DB021D then
           (0, d1\<lparr>pages := 1024, page_size := 264, page_offset := 9\<rparr>)
         else if density = DENSITY_AT45DB041D then
           (0, d1\<lparr>pages := 2048, page_size := 264, page_offset := 9\<rparr>)
         else if density = DENSITY_AT45DB081D then
           (0, d1\<lparr>pages := 4096, page_size := 264, page_offset := 9\<rparr>)
         else if density = DENSITY_AT45DB161D then
           (0, d1\<lparr>pages := 4096, page_size := 528, page_offset := 10\<rparr>)
         else if density = DENSITY_AT45DB321D then
           (0, d1\<lparr>pages := 8192, page_size := 528, page_offset := 10\<rparr>)
         else if density = DENSITY_AT45DB642D then
           (0, d1\<lparr>pages := 8192, page_size := 1056, page_offset := 11\<rparr>)
         else (-1, d1))"

definition df_at45_desc_init ::
  "dataflash_descriptor \<Rightarrow> world \<Rightarrow> int \<times> dataflash_descriptor \<times> world" where
  "df_at45_desc_init df_desc w =
     (case df_read_status_at45 w of
        (Inl ret, w1) \<Rightarrow> (ret, df_desc, w1)
      | (Inr status, w1) \<Rightarrow>
          (let (ret, d) = df_at45_decode status df_desc in (ret, d, w1)))"

definition df_at25_desc_init :: "dataflash_descriptor \<Rightarrow> int \<times> dataflash_descriptor" where
  "df_at25_desc_init df_desc =
     (0, df_desc\<lparr>is_power_2 := 1, pages := 16384, page_size := 256, page_offset := 0\<rparr>)"

definition df_desc_init ::
  "dataflash_descriptor \<Rightarrow> u8 \<Rightarrow> u8 \<Rightarrow> world \<Rightarrow> int \<times> dataflash_descriptor \<times> world" where
  "df_desc_init df_desc0 vendor fam w =
     (let df_desc = df_desc0\<lparr>family := fam\<rparr>
      in if vendor = MANUFACTURER_ID_ATMEL then
           (if family df_desc = DF_FAMILY_AT26F \<or> family df_desc = DF_FAMILY_AT26DF then
              (let (ret, d) = df_at25_desc_init df_desc
               in if ret \<noteq> 0 then (ret, d, w) else (0, d, w))
            else if family df_desc = DF_FAMILY_AT45 then
              (let (ret, d, w1) = df_at45_desc_init df_desc w
               in if ret \<noteq> 0 then (ret, d, w1) else (0, d, w1))
            else (-1, df_desc, w))
         else if vendor = MANUFACTURER_ID_MICRON then
           (if family df_desc = DF_FAMILY_M25P then
              (let (ret, d) = df_n25q_desc_init df_desc
               in if ret \<noteq> 0 then (ret, d, w) else (0, d, w))
            else if family df_desc = DF_FAMILY_N25Q then
              (let (ret, d) = df_n25q_desc_init df_desc
               in if ret \<noteq> 0 then (ret, d, w) else (0, d, w))
            else (-1, df_desc, w))
         else if vendor = MANUFACTURER_ID_WINBOND then
           (if family df_desc = WINBOND_W25Q128JV then
              (let (ret, d) = w_25q128_desc_init df_desc
               in if ret \<noteq> 0 then (ret, d, w) else (0, d, w))
            else (-1, df_desc, w))
         else (-1, df_desc, w))"

subsection \<open>The static part table\<close>

text \<open>
  \<open>struct flash_info\<close>. The name is \<open>None\<close> for a null pointer, which is how the
  sentinel entry \<open>{ }\<close> ends the table.
\<close>

record flash_info =
  fi_name :: "string option"
  fi_id :: "u8 list"
  fi_id_len :: u8
  fi_sector_size :: u32
  fi_n_sectors :: u16
  fi_page_size :: u16
  fi_addr_width :: u16
  fi_flags :: u32

definition BIT :: "nat \<Rightarrow> u32" where "BIT b = push_bit b 1"

definition SECT_4K :: u32 where "SECT_4K = BIT 0"
definition SPI_NOR_DUAL_READ :: u32 where "SPI_NOR_DUAL_READ = BIT 5"
definition SPI_NOR_QUAD_READ :: u32 where "SPI_NOR_QUAD_READ = BIT 6"
definition SPI_NOR_HAS_LOCK :: u32 where "SPI_NOR_HAS_LOCK = BIT 8"
definition SPI_NOR_HAS_TB :: u32 where "SPI_NOR_HAS_TB = BIT 9"

text \<open>The macro \<open>INFO\<close>: five id bytes from the two ids, the sixth left zero.\<close>

definition INFO :: "string \<Rightarrow> u32 \<Rightarrow> u32 \<Rightarrow> u32 \<Rightarrow> u16 \<Rightarrow> u32 \<Rightarrow> flash_info" where
  "INFO nm jedec_id ext_id ssize nsect fl =
     \<lparr>fi_name = Some nm,
      fi_id = [ucast (drop_bit 16 jedec_id AND 0xff), ucast (drop_bit 8 jedec_id AND 0xff),
               ucast (jedec_id AND 0xff),
               ucast (drop_bit 8 ext_id AND 0xff), ucast (ext_id AND 0xff), 0],
      fi_id_len = (if jedec_id = 0 then 0 else 3 + (if ext_id \<noteq> 0 then 2 else 0)),
      fi_sector_size = ssize,
      fi_n_sectors = nsect,
      fi_page_size = 256,
      fi_addr_width = 0,
      fi_flags = fl\<rparr>"

text \<open>The macro \<open>INFO6\<close>: six id bytes, always compared in full.\<close>

definition INFO6 :: "string \<Rightarrow> u32 \<Rightarrow> u32 \<Rightarrow> u32 \<Rightarrow> u16 \<Rightarrow> u32 \<Rightarrow> flash_info" where
  "INFO6 nm jedec_id ext_id ssize nsect fl =
     \<lparr>fi_name = Some nm,
      fi_id = [ucast (drop_bit 16 jedec_id AND 0xff), ucast (drop_bit 8 jedec_id AND 0xff),
               ucast (jedec_id AND 0xff),
               ucast (drop_bit 16 ext_id AND 0xff), ucast (drop_bit 8 ext_id AND 0xff),
               ucast (ext_id AND 0xff)],
      fi_id_len = 6,
      fi_sector_size = ssize,
      fi_n_sectors = nsect,
      fi_page_size = 256,
      fi_addr_width = 0,
      fi_flags = fl\<rparr>"

text \<open>The sentinel \<open>{ }\<close>: every field zero.\<close>

definition sentinel :: flash_info where
  "sentinel =
     \<lparr>fi_name = None, fi_id = [0, 0, 0, 0, 0, 0], fi_id_len = 0, fi_sector_size = 0,
      fi_n_sectors = 0, fi_page_size = 0, fi_addr_width = 0, fi_flags = 0\<rparr>"

text \<open>
  \<open>spi_nor_ids\<close> as it is compiled when \<open>CONFIG_SPI_FLASH_WINBOND\<close> is the only vendor
  option defined: the Winbond block in source order, then the sentinel.
\<close>

definition spi_nor_ids_winbond :: "flash_info list" where
  "spi_nor_ids_winbond =
     [
      INFO ''w25p80'' 0xef2014 0 (64 * 1024) 16 0,
      INFO ''w25p16'' 0xef2015 0 (64 * 1024) 32 0,
      INFO ''w25p32'' 0xef2016 0 (64 * 1024) 64 0,
      INFO ''w25x05'' 0xef3010 0 (64 * 1024) 1 SECT_4K,
      INFO ''w25x40'' 0xef3013 0 (64 * 1024) 8 SECT_4K,
      INFO ''w25x16'' 0xef3015 0 (64 * 1024) 32 SECT_4K,
      INFO ''w25q16dw'' 0xef6015 0 (64 * 1024) 32 (SECT_4K OR SPI_NOR_DUAL_READ OR SPI_NOR_QUAD_READ OR
             SPI_NOR_HAS_LOCK OR SPI_NOR_HAS_TB),
      INFO ''w25x32'' 0xef3016 0 (64 * 1024) 64 SECT_4K,
      INFO ''w25q20cl'' 0xef4012 0 (64 * 1024) 4 SECT_4K,
      INFO ''w25q20bw'' 0xef5012 0 (64 * 1024) 4 SECT_4K,
      INFO ''w25q20ew'' 0xef6012 0 (64 * 1024) 4 SECT_4K,
      INFO ''w25q32'' 0xef4016 0 (64 * 1024) 64 (SECT_4K OR SPI_NOR_DUAL_READ OR SPI_NOR_QUAD_READ),
      INFO ''w25q32dw'' 0xef6016 0 (64 * 1024) 64 (SECT_4K OR SPI_NOR_DUAL_READ OR SPI_NOR_QUAD_READ OR
             SPI_NOR_HAS_LOCK OR SPI_NOR_HAS_TB),
      INFO ''w25q32jv'' 0xef7016 0 (64 * 1024) 64 (SECT_4K OR SPI_NOR_DUAL_READ OR SPI_NOR_QUAD_READ OR
             SPI_NOR_HAS_LOCK OR SPI_NOR_HAS_TB),
      INFO ''w25q32jwm'' 0xef8016 0 (64 * 1024) 64 (SECT_4K OR SPI_NOR_DUAL_READ OR SPI_NOR_QUAD_READ OR
             SPI_NOR_HAS_LOCK OR SPI_NOR_HAS_TB),
      INFO ''w25x64'' 0xef3017 0 (64 * 1024) 128 SECT_4K,
      INFO ''w25q64dw'' 0xef6017 0 (64 * 1024) 128 (SECT_4K OR SPI_NOR_DUAL_READ OR SPI_NOR_QUAD_READ OR
             SPI_NOR_HAS_LOCK OR SPI_NOR_HAS_TB),
      INFO ''w25q64jv'' 0xef7017 0 (64 * 1024) 128 (SECT_4K OR SPI_NOR_DUAL_READ OR SPI_NOR_QUAD_READ OR
             SPI_NOR_HAS_LOCK OR SPI_NOR_HAS_TB),
      INFO ''w25q128fw'' 0xef6018 0 (64 * 1024) 256 (SECT_4K OR SPI_NOR_DUAL_READ OR SPI_NOR_QUAD_READ OR
             SPI_NOR_HAS_LOCK OR SPI_NOR_HAS_TB),
      INFO ''w25q128jv'' 0xef7018 0 (64 * 1024) 256 (SECT_4K OR SPI_NOR_DUAL_READ OR SPI_NOR_QUAD_READ OR
             SPI_NOR_HAS_LOCK OR SPI_NOR_HAS_TB),
      INFO ''w25q256fw'' 0xef6019 0 (64 * 1024) 512 (SECT_4K OR SPI_NOR_DUAL_READ OR SPI_NOR_QUAD_READ OR
             SPI_NOR_HAS_LOCK OR SPI_NOR_HAS_TB),
      INFO ''w25q256jw'' 0xef7019 0 (64 * 1024) 512 (SECT_4K OR SPI_NOR_DUAL_READ OR SPI_NOR_QUAD_READ OR
             SPI_NOR_HAS_LOCK OR SPI_NOR_HAS_TB),
      INFO ''w25q80'' 0xef5014 0 (64 * 1024) 16 SECT_4K,
      INFO ''w25q80bl'' 0xef4014 0 (64 * 1024) 16 (SECT_4K OR SPI_NOR_DUAL_READ OR SPI_NOR_QUAD_READ),
      INFO ''w25q16cl'' 0xef4015 0 (64 * 1024) 32 (SECT_4K OR SPI_NOR_DUAL_READ OR SPI_NOR_QUAD_READ),
      INFO ''w25q64cv'' 0xef4017 0 (64 * 1024) 128 (SECT_4K OR SPI_NOR_DUAL_READ OR SPI_NOR_QUAD_READ),
      INFO ''w25q128'' 0xef4018 0 (64 * 1024) 256 (SECT_4K OR SPI_NOR_DUAL_READ OR SPI_NOR_QUAD_READ OR
             SPI_NOR_HAS_LOCK OR SPI_NOR_HAS_TB),
      INFO ''w25q256'' 0xef4019 0 (64 * 1024) 512 (SECT_4K OR SPI_NOR_DUAL_READ OR SPI_NOR_QUAD_READ),
      INFO ''w25m512jw'' 0xef6119 0 (64 * 1024) 1024 (SECT_4K OR SPI_NOR_DUAL_READ OR SPI_NOR_QUAD_READ),
      INFO ''w25m512jv'' 0xef7119 0 (64 * 1024) 1024 (SECT_4K OR SPI_NOR_DUAL_READ OR SPI_NOR_QUAD_READ),
      sentinel]"

text \<open>With no vendor option defined the table is the sentinel alone.\<close>

definition spi_nor_ids_empty :: "flash_info list" where
  "spi_nor_ids_empty = [sentinel]"

text \<open>
  \<open>memcmp\<close> over the first \<open>n\<close> bytes; the driver only tests the result against zero.
  The third equation stands for buffers shorter than \<open>n\<close>, which no table built from
  \<open>INFO\<close> and \<open>INFO6\<close> reaches: their \<open>id_len\<close> is at most 6.
\<close>

fun memcmp :: "u8 list \<Rightarrow> u8 list \<Rightarrow> nat \<Rightarrow> int" where
  "memcmp a b 0 = 0"
| "memcmp (x # xs) (y # ys) (Suc n) =
     (if x = y then memcmp xs ys n else int (unat x) - int (unat y))"
| "memcmp a b (Suc n) = 0"

text \<open>
  The \<open>for (; info->name; info++)\<close> loop of \<open>dataflash_probe_atmel\<close>. \<open>info\<close> is the
  address of the entry under inspection and \<open>stride\<close> is \<open>sizeof(struct flash_info)\<close>;
  the assignment \<open>df_desc->page_offset = info\<close> stores that address in the descriptor.
  \<open>id_matches\<close> is the pair of nested tests on \<open>info->id_len\<close> and \<open>memcmp\<close>.
\<close>

definition id_matches :: "flash_info \<Rightarrow> u8 list \<Rightarrow> bool" where
  "id_matches e dev_id \<longleftrightarrow>
     fi_id_len e \<noteq> 0 \<and> memcmp (fi_id e) dev_id (unat (fi_id_len e)) = 0"

fun probe_table ::
  "flash_info list \<Rightarrow> u32 \<Rightarrow> u32 \<Rightarrow> u8 list \<Rightarrow> dataflash_descriptor
     \<Rightarrow> int \<times> dataflash_descriptor" where
  "probe_table [] info stride dev_id df_desc = (1, df_desc)"
| "probe_table (e # es) info stride dev_id df_desc =
     (case fi_name e of
        None \<Rightarrow> (1, df_desc)
      | Some nm \<Rightarrow>
          if id_matches e dev_id then
            (0, df_desc\<lparr>pages := ucast (fi_n_sectors e),
                        page_size := ucast (fi_page_size e),
                        page_offset := info\<rparr>)
          else probe_table es (info + stride) stride dev_id df_desc)"

text \<open>
  What the build fixes: the three feature switches, the part table with its address
  and entry size, and the payload parsers of other compilation units, which look at
  the memory at the address they are given.
\<close>

record config =
  CONFIG_DATAFLASH_RECOVERY :: bool
  CONFIG_LOAD_LINUX :: bool
  CONFIG_OF_LIBFDT :: bool
  spi_nor_ids :: "flash_info list"
  spi_nor_ids_addr :: u32
  sizeof_flash_info :: u32
  kernel_size :: "(u32 \<Rightarrow> u8) \<Rightarrow> u32 \<Rightarrow> int"
  check_dt_blob_valid :: "(u32 \<Rightarrow> u8) \<Rightarrow> u32 \<Rightarrow> int"
  of_get_dt_total_size :: "(u32 \<Rightarrow> u8) \<Rightarrow> u32 \<Rightarrow> int"

text \<open>
  The five id bytes read are followed by the stack byte a six-byte comparison reaches.
\<close>

definition dataflash_probe_atmel ::
  "config \<Rightarrow> dataflash_descriptor \<Rightarrow> world \<Rightarrow> int \<times> dataflash_descriptor \<times> world" where
  "dataflash_probe_atmel cfg df_desc w =
     (let (ret, dev_id, w1) = df_send_command (Some [CMD_READ_DEV_ID]) 1 True 5 w
      in if ret \<noteq> 0 then (ret, df_desc, w1)
         else
           (let (r, d) = probe_table (spi_nor_ids cfg) (spi_nor_ids_addr cfg)
                           (sizeof_flash_info cfg) (dev_id @ [junk_dev_id5 w1]) df_desc
            in (r, d, w1)))"

section \<open>Image length resolver\<close>

datatype payload_kind = KERNEL_IMAGE | DT_BLOB

definition update_image_length ::
  "config \<Rightarrow> dataflash_descriptor \<Rightarrow> u32 \<Rightarrow> u32 \<Rightarrow> payload_kind \<Rightarrow> world \<Rightarrow> int \<times> world" where
  "update_image_length cfg df_desc offs dst flag w =
     (let len = page_size df_desc;
          (ret, w1) = read_array df_desc offs len dst w
      in if ret \<noteq> 0 then (-1, w1)
         else if flag = KERNEL_IMAGE then (kernel_size cfg (ram w1) dst, w1)
         else if CONFIG_OF_LIBFDT cfg \<and> check_dt_blob_valid cfg (ram w1) dst = 0 then
           (of_get_dt_total_size cfg (ram w1) dst, w1)
         else (-1, w1))"

section \<open>Load orchestrator\<close>

text \<open>The fields of \<open>struct image_info\<close> the driver uses.\<close>

record image_info =
  offset :: u32
  dest :: u32
  length_i :: u32
  of_offset :: u32
  of_dest :: u32
  of_length :: u32

definition at91_spi0_hw_init :: "world \<Rightarrow> world" where
  "at91_spi0_hw_init w = w"

definition at91_spi_init :: "world \<Rightarrow> int \<times> world" where
  "at91_spi_init w = (spi_init_ret w, w)"

text \<open>
  The \<open>CONFIG_OF_LIBFDT\<close> block. Its \<open>return -1\<close> leaves without passing \<open>err_exit\<close>.
\<close>

definition load_dt ::
  "config \<Rightarrow> dataflash_descriptor \<Rightarrow> image_info \<Rightarrow> world \<Rightarrow> int \<times> image_info \<times> world" where
  "load_dt cfg df_desc img w =
     (let (len, w1) =
            update_image_length cfg df_desc (of_offset img) (of_dest img) DT_BLOB w
      in if len = -1 then (-1, img, w1)
         else
           (let img1 = img\<lparr>of_length := word_of_int len\<rparr>;
                (ret, w2) = read_array df_desc (of_offset img1) (of_length img1)
                              (of_dest img1) w1
            in if ret \<noteq> 0 then (-1, img1, at91_spi_disable w2)
               else (ret, img1, at91_spi_disable w2)))"

text \<open>The copy of the kernel payload and what follows it.\<close>

definition copy_kernel ::
  "config \<Rightarrow> dataflash_descriptor \<Rightarrow> image_info \<Rightarrow> world \<Rightarrow> int \<times> image_info \<times> world" where
  "copy_kernel cfg df_desc img w =
     (let (ret, w1) = read_array df_desc (offset img) (length_i img) (dest img) w
      in if ret \<noteq> 0 then (-1, img, at91_spi_disable w1)
         else if CONFIG_OF_LIBFDT cfg then load_dt cfg df_desc img w1
         else (ret, img, at91_spi_disable w1))"

text \<open>
  The \<open>CONFIG_LOAD_LINUX\<close> / \<open>CONFIG_LOAD_ANDROID\<close> block, then the copy. Its
  \<open>return -1\<close> leaves without passing \<open>err_exit\<close> as well.
\<close>

definition load_kernel ::
  "config \<Rightarrow> dataflash_descriptor \<Rightarrow> image_info \<Rightarrow> world \<Rightarrow> int \<times> image_info \<times> world" where
  "load_kernel cfg df_desc img w =
     (if CONFIG_LOAD_LINUX cfg then
        (let (len, w1) =
               update_image_length cfg df_desc (offset img) (dest img) KERNEL_IMAGE w
         in if len = -1 then (-1, img, w1)
            else copy_kernel cfg df_desc (img\<lparr>length_i := word_of_int len\<rparr>) w1)
      else copy_kernel cfg df_desc img w)"

text \<open>The \<open>CONFIG_DATAFLASH_RECOVERY\<close> block, then the rest of the load.\<close>

definition load_after_probe ::
  "config \<Rightarrow> dataflash_descriptor \<Rightarrow> image_info \<Rightarrow> world \<Rightarrow> int \<times> image_info \<times> world" where
  "load_after_probe cfg df_desc img w =
     (if CONFIG_DATAFLASH_RECOVERY cfg then
        (let (r, w1) = dataflash_recovery df_desc w
         in if r = 0 then (-2, img, at91_spi_disable w1)
            else load_kernel cfg df_desc img w1)
      else load_kernel cfg df_desc img w)"

definition spi_flash_loadimage ::
  "config \<Rightarrow> image_info \<Rightarrow> world \<Rightarrow> int \<times> image_info \<times> world" where
  "spi_flash_loadimage cfg img w =
     (let df_desc = zero_descriptor;
          (ret, w1) = at91_spi_init (at91_spi0_hw_init w)
      in if ret \<noteq> 0 then (-1, img, w1)
         else
           (let (ret, d, w2) = dataflash_probe_atmel cfg df_desc (at91_spi_enable w1)
            in if ret \<noteq> 0 then (-1, img, at91_spi_disable w2)
               else load_after_probe cfg d img w2))"

section \<open>Observations the claims are stated with\<close>

text \<open>
  The number a byte sequence denotes when it is read most significant byte first.
\<close>

definition be_value :: "u8 list \<Rightarrow> nat" where
  "be_value bs = foldl (\<lambda>acc b. acc * 256 + unat b) 0 bs"

text \<open>
  The six bytes the probe compares table entries with: a status or id transaction
  shifts its command byte out first, so the five id bytes are the reads after that one.
\<close>

definition dev_id_bytes :: "world \<Rightarrow> u8 list" where
  "dev_id_bytes w = map (\<lambda>i. spi_in w (spi_pos w + 1 + i)) [0..<5] @ [junk_dev_id5 w]"

text \<open>
  A status read is a two-byte exchange, command then status. \<open>poll_status w k\<close> is the
  status byte the \<open>k\<close>-th of a run of status reads started in \<open>w\<close> gets, counted
  from 0: \<open>poll_status w 0\<close> is what a single status read in \<open>w\<close> returns.
\<close>

definition poll_status :: "world \<Rightarrow> nat \<Rightarrow> u8" where
  "poll_status w k = spi_in w (spi_pos w + 2 * k + 1)"

text \<open>
  The descriptor and the machine state with which \<open>spi_flash_loadimage\<close> reaches the
  kernel length resolution, when it gets that far: after \<open>at91_spi_init\<close>,
  \<open>at91_spi_enable\<close>, the probe of the zeroed descriptor and, where it is compiled
  in, \<open>dataflash_recovery\<close>. \<open>kernel_page_read\<close> is the read of the first page of
  the kernel payload made from there.
\<close>

definition load_entry :: "config \<Rightarrow> world \<Rightarrow> dataflash_descriptor \<times> world" where
  "load_entry cfg w =
     (let (ret, d, w1) =
            dataflash_probe_atmel cfg zero_descriptor
              (at91_spi_enable (snd (at91_spi_init (at91_spi0_hw_init w))))
      in (d, if CONFIG_DATAFLASH_RECOVERY cfg then snd (dataflash_recovery d w1) else w1))"

definition kernel_page_read :: "config \<Rightarrow> image_info \<Rightarrow> world \<Rightarrow> int \<times> world" where
  "kernel_page_read cfg img w =
     read_array (fst (load_entry cfg w)) (offset img) (page_size (fst (load_entry cfg w)))
       (dest img) (snd (load_entry cfg w))"

text \<open>The chip-select brackets that carried a read command.\<close>

definition is_read_transaction :: "u8 list \<Rightarrow> bool" where
  "is_read_transaction t \<longleftrightarrow> take 1 t = [CMD_READ_ARRAY_FAST]"

definition read_transactions :: "world \<Rightarrow> u8 list list" where
  "read_transactions w = filter is_read_transaction (spi_log w)"

section \<open>Concrete inputs\<close>

text \<open>A receive sequence given by its first bytes and the byte that follows forever.\<close>

definition stream_of :: "u8 list \<Rightarrow> u8 \<Rightarrow> nat \<Rightarrow> u8" where
  "stream_of xs dflt k = (if k < length xs then xs ! k else dflt)"

text \<open>A machine at reset: nothing sent yet, recovery button released.\<close>

definition idle_world :: "(nat \<Rightarrow> u8) \<Rightarrow> world" where
  "idle_world s =
     \<lparr>spi_in = s, spi_pos = 0, spi_log = [], spi_cs = False, spi_enabled = False,
      ram = (\<lambda>a. 0), recovery_pin = 1, spi_init_ret = 0, junk_cmd4 = 0, junk_dev_id5 = 0,
      junk_shift = 0\<rparr>"

text \<open>
  A build with the Winbond table, all three feature switches on, and parsers that
  accept: a 16-byte kernel and an 8-byte device tree.
\<close>

definition cfg_winbond :: config where
  "cfg_winbond =
     \<lparr>CONFIG_DATAFLASH_RECOVERY = True, CONFIG_LOAD_LINUX = True, CONFIG_OF_LIBFDT = True,
      spi_nor_ids = spi_nor_ids_winbond, spi_nor_ids_addr = 0x308000, sizeof_flash_info = 28,
      kernel_size = (\<lambda>m a. 16), check_dt_blob_valid = (\<lambda>m a. 0),
      of_get_dt_total_size = (\<lambda>m a. 8)\<rparr>"

text \<open>The same build with a kernel header parser that rejects what it is shown.\<close>

definition cfg_bad_kernel :: config where
  "cfg_bad_kernel = cfg_winbond\<lparr>kernel_size := (\<lambda>m a. -1)\<rparr>"

text \<open>
  The same build with a kernel header parser that looks at the first byte: 0x27 is
  accepted as a 16-byte kernel, anything else rejected.
\<close>

definition cfg_magic_kernel :: config where
  "cfg_magic_kernel =
     cfg_winbond\<lparr>kernel_size := (\<lambda>m a. if m a = 0x27 then 16 else -1)\<rparr>"

text \<open>The geometry of an AT45DB021D with the page-size bit clear.\<close>

definition at45db021d_descriptor :: dataflash_descriptor where
  "at45db021d_descriptor =
     \<lparr>family = 0x20, pages = 1024, page_size = 264, page_offset = 9,
      is_power_2 = 0, is_spinor = 0\<rparr>"



text \<open>Two descriptors above the 16384-page threshold, one per read function.\<close>

definition big_dataflash_descriptor :: dataflash_descriptor where
  "big_dataflash_descriptor =
     \<lparr>family = 0, pages = 32768, page_size = 256, page_offset = 0,
      is_power_2 = 1, is_spinor = 0\<rparr>"

definition big_nor_descriptor :: dataflash_descriptor where
  "big_nor_descriptor =
     \<lparr>family = 0, pages = 32768, page_size = 256, page_offset = 0,
      is_power_2 = 0, is_spinor = 1\<rparr>"

text \<open>Machines whose part answers the id read as a W25Q128JV and as an AT26DF321.\<close>

definition w25q128jv_world :: world where
  "w25q128jv_world = idle_world (stream_of [0xff, 0xef, 0x70, 0x18, 0x00, 0x00] 0)"

definition at26df_world :: world where
  "at26df_world = idle_world (stream_of [0xff, 0x1f, 0x47, 0x00, 0x00, 0x00] 0)"

text \<open>Machines whose first status read returns 0x14 and 0x10.\<close>

definition at45_status_0x14_world :: world where
  "at45_status_0x14_world = idle_world (stream_of [0xff, 0x14] 0)"

definition at45_status_0x10_world :: world where
  "at45_status_0x10_world = idle_world (stream_of [0xff, 0x10] 0)"

text \<open>
  Recovery button pressed; every status read returns 0x0c: both software-protect
  bits set, busy bit clear.
\<close>

definition recovery_pressed_world :: world where
  "recovery_pressed_world = (idle_world (\<lambda>k. 0x0c))\<lparr>recovery_pin := 0\<rparr>"

text \<open>A request for a kernel and a device tree, lengths not yet known.\<close>

definition boot_image :: image_info where
  "boot_image =
     \<lparr>offset = 0x8000, dest = 0x22000000, length_i = 0,
      of_offset = 0x4000, of_dest = 0x21000000, of_length = 0\<rparr>"


section \<open>Named collections of the constants\<close>

lemmas opcode_defs =
  CMD_READ_DEV_ID_def CMD_READ_ARRAY_FAST_def CMD_READ_STATUS_AT45_def
  CMD_ERASE_BLOCK4K_AT25_def CMD_WRITE_ENABLE_AT25_def CMD_READ_STATUS_AT25_def
  CMD_WRITE_STATUS_AT25_def CMD_ERASE_PAGE_AT45_def

lemmas status_bit_defs =
  STATUS_PAGE_SIZE_AT45_def STATUS_READY_AT45_def STATUS_READY_AT25_def
  STATUS_SWP_AT25_def STATUS_SPRL_AT25_def

lemmas family_defs =
  MANUFACTURER_ID_ATMEL_def MANUFACTURER_ID_MICRON_def MANUFACTURER_ID_WINBOND_def
  DF_FAMILY_AT26F_def DF_FAMILY_AT45_def DF_FAMILY_AT26DF_def DF_FAMILY_N25Q_def
  DF_FAMILY_M25P_def WINBOND_W25Q128JV_def

lemmas density_defs =
  DENSITY_AT45DB011D_def DENSITY_AT45DB021D_def DENSITY_AT45DB041D_def
  DENSITY_AT45DB081D_def DENSITY_AT45DB161D_def DENSITY_AT45DB321D_def
  DENSITY_AT45DB642D_def DENSITY_AT45DB1282D_def DENSITY_AT45DB2562D_def
  DENSITY_AT45DB5122D_def

lemmas flag_defs = BIT_def SECT_4K_def SPI_NOR_DUAL_READ_def SPI_NOR_QUAD_READ_def
  SPI_NOR_HAS_LOCK_def SPI_NOR_HAS_TB_def

section \<open>The transaction primitive in closed form\<close>

text \<open>
  A transaction that passes the argument checks always succeeds: it appends one
  bracket to the log, advances the receive sequence by one byte per byte shifted,
  and hands back the bytes of the data phase.
\<close>

lemma send_cmd_bytes_closed:
  "spi_log w = l @ [t] \<Longrightarrow>
   send_cmd_bytes bs w = w\<lparr>spi_pos := spi_pos w + length bs, spi_log := l @ [t @ bs]\<rparr>"
proof (induction bs arbitrary: w t)
  case Nil
  then show ?case by simp
next
  case (Cons b bs)
  let ?w1 = "snd (at91_spi_read_spi (at91_spi_write_data b w))"
  have l1: "spi_log ?w1 = l @ [t @ [b]]"
    using Cons.prems by (simp add: at91_spi_read_spi_def at91_spi_write_data_def)
  have "send_cmd_bytes (b # bs) w = send_cmd_bytes bs ?w1" by simp
  also have "\<dots> = ?w1\<lparr>spi_pos := spi_pos ?w1 + length bs, spi_log := l @ [(t @ [b]) @ bs]\<rparr>"
    by (rule Cons.IH[OF l1])
  also have "\<dots> = w\<lparr>spi_pos := spi_pos w + length (b # bs), spi_log := l @ [t @ b # bs]\<rparr>"
    by (simp add: at91_spi_read_spi_def at91_spi_write_data_def)
  finally show ?case .
qed

lemma recv_data_bytes_closed:
  "spi_log w = l @ [t] \<Longrightarrow>
   recv_data_bytes n w =
     (map (\<lambda>i. spi_in w (spi_pos w + i)) [0..<n],
      w\<lparr>spi_pos := spi_pos w + n, spi_log := l @ [t @ replicate n 0]\<rparr>)"
proof (induction n arbitrary: w t)
  case 0
  then show ?case by simp
next
  case (Suc n)
  let ?w1 = "snd (at91_spi_read_spi (at91_spi_write_data 0 w))"
  have l1: "spi_log ?w1 = l @ [t @ [0]]"
    using Suc.prems by (simp add: at91_spi_read_spi_def at91_spi_write_data_def)
  have p1: "spi_pos ?w1 = Suc (spi_pos w)" "spi_in ?w1 = spi_in w"
    by (simp_all add: at91_spi_read_spi_def at91_spi_write_data_def)
  have m: "map (\<lambda>i. spi_in w (spi_pos w + i)) [0..<Suc n] =
        spi_in w (spi_pos w) # map (\<lambda>i. spi_in w (Suc (spi_pos w) + i)) [0..<n]"
    by (simp add: upt_conv_Cons map_Suc_upt[symmetric] del: upt_Suc)
  have r: "replicate (Suc n) (0::u8) = [0] @ replicate n 0" by simp
  show ?case
    apply (simp only: recv_data_bytes.simps)
    apply (simp only: m r)
    apply (simp add: Suc.IH[OF l1] p1 Let_def split_def)
    apply (simp add: at91_spi_read_spi_def at91_spi_write_data_def)
    done
qed

lemma df_send_command_closed:
  assumes "cmd_len \<noteq> 0" "data_len = 0 \<or> data"
  shows "df_send_command (Some c) cmd_len data data_len w =
     (0, map (\<lambda>i. spi_in w (spi_pos w + length (take (unat cmd_len) c) + i)) [0..<data_len],
      w\<lparr>spi_pos := spi_pos w + length (take (unat cmd_len) c) + data_len,
        spi_log := spi_log w @ [take (unat cmd_len) c @ replicate data_len 0],
        spi_cs := False\<rparr>)"
proof -
  define w1 where "w1 = at91_spi_read_sr (at91_spi_cs_activate w)"
  define w2 where "w2 = send_cmd_bytes (take (unat cmd_len) c) w1"
  have l1: "spi_log w1 = spi_log w @ [[]]"
    by (simp add: w1_def at91_spi_read_sr_def at91_spi_cs_activate_def)
  have w2: "w2 = w1\<lparr>spi_pos := spi_pos w1 + length (take (unat cmd_len) c),
                     spi_log := spi_log w @ [[] @ take (unat cmd_len) c]\<rparr>"
    unfolding w2_def by (rule send_cmd_bytes_closed[OF l1])
  have l2: "spi_log w2 = spi_log w @ [take (unat cmd_len) c]"
    by (simp add: w2)
  have "df_send_command (Some c) cmd_len data data_len w =
          (let (bytes, w3) = recv_data_bytes data_len w2
           in (0, bytes, at91_spi_cs_deactivate w3))"
    using assms by (auto simp: df_send_command_def Let_def w1_def w2_def)
  also have "\<dots> = (0, map (\<lambda>i. spi_in w (spi_pos w + length (take (unat cmd_len) c) + i)) [0..<data_len],
      w\<lparr>spi_pos := spi_pos w + length (take (unat cmd_len) c) + data_len,
        spi_log := spi_log w @ [take (unat cmd_len) c @ replicate data_len 0],
        spi_cs := False\<rparr>)"
    apply (simp only: recv_data_bytes_closed[OF l2])
    apply (simp add: w2 w1_def at91_spi_read_sr_def at91_spi_cs_activate_def
        at91_spi_cs_deactivate_def)
    done
  finally show ?thesis .
qed

lemma replicate_numeral:
  "replicate (numeral k) x = x # replicate (pred_numeral k) x"
  by (simp add: numeral_eq_Suc)

lemma df_read_status_at45_closed:
  "df_read_status_at45 w =
     (Inr (spi_in w (spi_pos w + 1)),
      w\<lparr>spi_pos := spi_pos w + 2,
        spi_log := spi_log w @ [[CMD_READ_STATUS_AT45, 0]],
        spi_cs := False\<rparr>)"
  by (simp add: df_read_status_at45_def df_send_command_closed)

lemma df_read_status_at25_closed:
  "df_read_status_at25 w =
     (Inr (spi_in w (spi_pos w + 1)),
      w\<lparr>spi_pos := spi_pos w + 2,
        spi_log := spi_log w @ [[CMD_READ_STATUS_AT25, 0]],
        spi_cs := False\<rparr>)"
  by (simp add: df_read_status_at25_def df_send_command_closed)

lemma status_read_returns_poll_status:
  "fst (df_read_status_at45 w) = Inr (poll_status w 0)"
  "fst (df_read_status_at25 w) = Inr (poll_status w 0)"
  by (simp_all add: df_read_status_at45_closed df_read_status_at25_closed poll_status_def)

section \<open>Address translation\<close>




section \<open>The read command\<close>

lemma mod_2_16: "(n::nat) mod 65536 = 256 * (n div 256 mod 256) + n mod 256"
  using mod_mult2_eq[of n 256 256] by simp

lemma mod_2_24:
  "(n::nat) mod 16777216 =
     65536 * (n div 65536 mod 256) + 256 * (n div 256 mod 256) + n mod 256"
  using mod_mult2_eq[of n 65536 256] mod_2_16[of n] by simp

lemma mod_2_32:
  "(n::nat) mod 4294967296 =
     16777216 * (n div 16777216 mod 256) + 65536 * (n div 65536 mod 256) +
     256 * (n div 256 mod 256) + n mod 256"
  using mod_mult2_eq[of n 16777216 256] mod_2_24[of n] by simp

lemma unat_drop_bit_div:
  fixes a :: u32
  shows "unat (drop_bit k a) = unat a div 2 ^ k"
  by (subst unat_drop_bit_eq) (rule drop_bit_eq_div)

lemma unat_low_byte:
  fixes a :: u32
  shows "unat (ucast a :: u8) = unat a mod 256"
  by (simp add: unsigned_ucast_eq take_bit_eq_mod)

lemma be_value_3:
  fixes a :: u32
  shows "be_value [ucast (drop_bit 16 a), ucast (drop_bit 8 a), ucast a] = unat a mod 2 ^ 24"
  by (simp add: be_value_def unat_low_byte unat_drop_bit_div mod_2_24)

lemma be_value_4:
  fixes a :: u32
  shows "be_value [ucast (drop_bit 24 a), ucast (drop_bit 16 a), ucast (drop_bit 8 a), ucast a]
           = unat a"
proof -
  have "unat a < 4294967296" using unsigned_less[of a, where 'a=nat] by simp
  then have "unat a mod 4294967296 = unat a"
    "unat a div 16777216 mod 256 = unat a div 16777216" by simp_all
  then show ?thesis
    using mod_2_32[of "unat a"]
    by (simp add: be_value_def unat_low_byte unat_drop_bit_div)
qed

lemma read_array_by_cmd:
  "read_array d offs len buf w = read_with_cmd (read_array_cmd d offs w) len buf w"
  by (simp add: read_array_def read_array_cmd_def dataflash_read_array_def
      spinor_read_array_def)

lemma length_read_array_cmd: "length (read_array_cmd d offs w) = 5"
  by (simp add: read_array_cmd_def dataflash_read_cmd_def spinor_read_cmd_def Let_def)

lemma read_with_cmd_closed:
  assumes "length cmd = 5" "buf \<noteq> 0 \<or> len = 0"
  shows "read_with_cmd cmd len buf w =
     (0, w\<lparr>spi_pos := spi_pos w + 5 + unat len,
           spi_log := spi_log w @ [cmd @ replicate (unat len) 0],
           spi_cs := False,
           ram := store_bytes buf (map (\<lambda>i. spi_in w (spi_pos w + 5 + i)) [0..<unat len])
                    (ram w)\<rparr>)"
proof -
  have "unat len = 0 \<or> buf \<noteq> 0" using assms(2) by auto
  then show ?thesis
    using assms(1) by (simp add: read_with_cmd_def df_send_command_closed)
qed

lemma read_with_cmd_null:
  assumes "buf = 0" "len \<noteq> 0"
  shows "read_with_cmd cmd len buf w = (-1, w)"
  using assms by (simp add: read_with_cmd_def df_send_command_def unat_eq_0)

subsection \<open>Legacy paging\<close>





subsection \<open>Address width\<close>

text \<open>
  Claim C5, as the code has it. Every read command is five bytes long and is what a
  successful read shifts out ahead of the data phase. The page count selects the
  layout only on the DataFlash path (\<open>is_spinor = 0\<close>): up to 16384 pages the fast-read
  opcode, the low three address bytes most significant first and a zero byte; above
  16384 pages the opcode and all four address bytes. On the NOR path
  (\<open>is_spinor \<noteq> 0\<close>) the command is always the opcode, three address bytes and one
  byte that was never written, whatever the page count.
\<close>

theorem read_command_layout:
  "length (read_array_cmd d offs w) = 5 \<and>
   (buf \<noteq> 0 \<or> len = 0 \<longrightarrow>
      fst (read_array d offs len buf w) = 0 \<and>
      spi_log (snd (read_array d offs len buf w)) =
        spi_log w @ [read_array_cmd d offs w @ replicate (unat len) 0]) \<and>
   (is_spinor d = 0 \<and> pages d \<le> 16384 \<longrightarrow>
      (\<exists>a. read_array_cmd d offs w = CMD_READ_ARRAY_FAST # a @ [0] \<and> length a = 3 \<and>
           be_value a = unat (dataflash_address d offs w) mod 2 ^ 24)) \<and>
   (is_spinor d = 0 \<and> pages d > 16384 \<longrightarrow>
      (\<exists>a. read_array_cmd d offs w = CMD_READ_ARRAY_FAST # a \<and> length a = 4 \<and>
           be_value a = unat (dataflash_address d offs w))) \<and>
   (is_spinor d \<noteq> 0 \<longrightarrow>
      (\<exists>a. read_array_cmd d offs w = CMD_READ_ARRAY_FAST # a @ [junk_cmd4 w] \<and>
           length a = 3 \<and> be_value a = unat offs mod 2 ^ 24))"
proof -
  have l: "buf \<noteq> 0 \<or> len = 0 \<longrightarrow>
      fst (read_array d offs len buf w) = 0 \<and>
      spi_log (snd (read_array d offs len buf w)) =
        spi_log w @ [read_array_cmd d offs w @ replicate (unat len) 0]"
    by (simp add: read_array_by_cmd read_with_cmd_closed length_read_array_cmd)
  have a: "is_spinor d = 0 \<and> pages d \<le> 16384 \<longrightarrow>
      (\<exists>a. read_array_cmd d offs w = CMD_READ_ARRAY_FAST # a @ [0] \<and> length a = 3 \<and>
           be_value a = unat (dataflash_address d offs w) mod 2 ^ 24)"
    using be_value_3[of "dataflash_address d offs w"]
    by (auto simp: read_array_cmd_def dataflash_read_cmd_def Let_def not_less)
  have b: "is_spinor d = 0 \<and> pages d > 16384 \<longrightarrow>
      (\<exists>a. read_array_cmd d offs w = CMD_READ_ARRAY_FAST # a \<and> length a = 4 \<and>
           be_value a = unat (dataflash_address d offs w))"
    using be_value_4[of "dataflash_address d offs w"]
    by (auto simp: read_array_cmd_def dataflash_read_cmd_def Let_def)
  have c: "is_spinor d \<noteq> 0 \<longrightarrow>
      (\<exists>a. read_array_cmd d offs w = CMD_READ_ARRAY_FAST # a @ [junk_cmd4 w] \<and>
           length a = 3 \<and> be_value a = unat offs mod 2 ^ 24)"
    using be_value_3[of offs]
    by (auto simp: read_array_cmd_def spinor_read_cmd_def Let_def)
  show ?thesis using l a b c length_read_array_cmd by blast
qed

text \<open>
  The three layouts at offset 0x01020304: an AT45DB021D, a DataFlash descriptor of
  32768 pages and a NOR descriptor of 32768 pages.
\<close>

theorem read_command_layout_witness:
  "fst (read_array at45db021d_descriptor 0x01020304 4 0x20000000 (idle_world (\<lambda>k. 0))) = 0 \<and>
   (\<exists>a. read_array_cmd at45db021d_descriptor 0x01020304 (idle_world (\<lambda>k. 0)) =
          CMD_READ_ARRAY_FAST # a @ [0] \<and> length a = 3) \<and>
   (\<exists>a. read_array_cmd big_dataflash_descriptor 0x01020304 (idle_world (\<lambda>k. 0)) =
          CMD_READ_ARRAY_FAST # a \<and> length a = 4 \<and> be_value a = 0x01020304) \<and>
   (\<exists>a. read_array_cmd big_nor_descriptor 0x01020304 (idle_world (\<lambda>k. 0)) =
          CMD_READ_ARRAY_FAST # a @ [0] \<and> length a = 3 \<and> be_value a = 0x020304)"
proof -
  let ?w = "idle_world (\<lambda>k. 0)"
  have h1: "(0x20000000 :: u32) \<noteq> 0 \<or> (4 :: u32) = 0" by simp
  have h2: "is_spinor at45db021d_descriptor = 0 \<and> pages at45db021d_descriptor \<le> 16384"
    by (simp add: at45db021d_descriptor_def)
  have h3: "is_spinor big_dataflash_descriptor = 0 \<and> pages big_dataflash_descriptor > 16384"
    by (simp add: big_dataflash_descriptor_def)
  have h4: "is_spinor big_nor_descriptor \<noteq> 0"
    by (simp add: big_nor_descriptor_def)
  have a3: "unat (dataflash_address big_dataflash_descriptor 0x01020304 ?w) = 0x01020304"
    by (simp add: dataflash_address_def big_dataflash_descriptor_def)
  have j: "junk_cmd4 ?w = 0" by (simp add: idle_world_def)
  have m: "unat (0x01020304 :: u32) mod 2 ^ 24 = 0x020304" by simp
  show ?thesis
    using read_command_layout[of at45db021d_descriptor "0x01020304" ?w "0x20000000" 4]
      read_command_layout[of big_dataflash_descriptor "0x01020304" ?w "0x20000000" 4]
      read_command_layout[of big_nor_descriptor "0x01020304" ?w "0x20000000" 4]
      h1 h2 h3 h4
    unfolding a3 j m
    by blast
qed

text \<open>
  The claim as written fails on the NOR path: a descriptor with \<open>is_spinor = 1\<close> and
  32768 pages still gets a three-byte address.
\<close>

theorem nor_read_never_four_byte_counterexample:
  "pages big_nor_descriptor > 16384 \<and>
   fst (read_array big_nor_descriptor 0x01020304 0 0x20000000 (idle_world (\<lambda>k. 0))) = 0 \<and>
   spi_log (snd (read_array big_nor_descriptor 0x01020304 0 0x20000000 (idle_world (\<lambda>k. 0))))
     = [[CMD_READ_ARRAY_FAST, 0x02, 0x03, 0x04, 0x00]] \<and>
   spi_log (snd (read_array big_nor_descriptor 0x01020304 0 0x20000000 (idle_world (\<lambda>k. 0))))
     \<noteq> [[CMD_READ_ARRAY_FAST, 0x01, 0x02, 0x03, 0x04]]"
  by (simp add: read_array_by_cmd read_with_cmd_closed length_read_array_cmd
      read_array_cmd_def spinor_read_cmd_def big_nor_descriptor_def idle_world_def)

section \<open>Descriptor resolution\<close>

lemma memcmp_numeral [simp]:
  "memcmp (x # xs) (y # ys) (numeral k) =
     (if x = y then memcmp xs ys (pred_numeral k) else int (unat x) - int (unat y))"
  by (simp add: numeral_eq_Suc)

lemma probe_table_no_match:
  "\<forall>e \<in> set tbl. \<not> id_matches e dev \<Longrightarrow> probe_table tbl a s dev d = (1, d)"
  by (induction tbl a s dev d rule: probe_table.induct) (auto split: option.split)

lemma dataflash_probe_atmel_closed:
  "dataflash_probe_atmel cfg d w =
     (fst (probe_table (spi_nor_ids cfg) (spi_nor_ids_addr cfg) (sizeof_flash_info cfg)
             (dev_id_bytes w) d),
      snd (probe_table (spi_nor_ids cfg) (spi_nor_ids_addr cfg) (sizeof_flash_info cfg)
             (dev_id_bytes w) d),
      w\<lparr>spi_pos := spi_pos w + 6,
        spi_log := spi_log w @ [[CMD_READ_DEV_ID, 0, 0, 0, 0, 0]],
        spi_cs := False\<rparr>)"
  by (simp add: dataflash_probe_atmel_def df_send_command_closed dev_id_bytes_def
      split_def Let_def replicate_numeral)

lemma probe_table_keeps:
  "family (snd (probe_table tbl a s dev d)) = family d"
  "is_spinor (snd (probe_table tbl a s dev d)) = is_spinor d"
  "is_power_2 (snd (probe_table tbl a s dev d)) = is_power_2 d"
  by (induction tbl a s dev d rule: probe_table.induct; simp split: option.split)+

lemma dataflash_probe_atmel_keeps:
  "family (fst (snd (dataflash_probe_atmel cfg d w))) = family d"
  "is_spinor (fst (snd (dataflash_probe_atmel cfg d w))) = is_spinor d"
  "is_power_2 (fst (snd (dataflash_probe_atmel cfg d w))) = is_power_2 d"
  by (simp_all add: dataflash_probe_atmel_def split_def Let_def probe_table_keeps)

lemma df_at45_desc_init_closed:
  "df_at45_desc_init d w =
     (fst (df_at45_decode (spi_in w (spi_pos w + 1)) d),
      snd (df_at45_decode (spi_in w (spi_pos w + 1)) d),
      w\<lparr>spi_pos := spi_pos w + 2,
        spi_log := spi_log w @ [[CMD_READ_STATUS_AT45, 0]],
        spi_cs := False\<rparr>)"
  by (simp add: df_at45_desc_init_def df_read_status_at45_closed split_def Let_def)

subsection \<open>The W25Q128JV entry\<close>

lemma probe_table_w25q128jv:
  "probe_table spi_nor_ids_winbond a s [0xef, 0x70, 0x18, 0, 0, j] d =
     (0, d\<lparr>pages := 256, page_size := 256, page_offset := a + 19 * s\<rparr>)"
  by (simp add: spi_nor_ids_winbond_def INFO_def id_matches_def)

lemma dataflash_probe_atmel_w25q128jv:
  assumes "dev_id_bytes w = [0xef, 0x70, 0x18, 0, 0, j]"
    and "spi_nor_ids cfg = spi_nor_ids_winbond"
  shows "dataflash_probe_atmel cfg d w =
     (0, d\<lparr>pages := 256, page_size := 256,
           page_offset := spi_nor_ids_addr cfg + 19 * sizeof_flash_info cfg\<rparr>,
      w\<lparr>spi_pos := spi_pos w + 6,
        spi_log := spi_log w @ [[CMD_READ_DEV_ID, 0, 0, 0, 0, 0]],
        spi_cs := False\<rparr>)"
  using assms by (simp add: dataflash_probe_atmel_closed probe_table_w25q128jv)

lemma probe_w25q128jv_result:
  "dataflash_probe_atmel cfg_winbond zero_descriptor w25q128jv_world =
     (0,
      \<lparr>family = 0, pages = 256, page_size = 256, page_offset = 0x308214,
       is_power_2 = 0, is_spinor = 0\<rparr>,
      w25q128jv_world\<lparr>spi_pos := 6, spi_log := [[CMD_READ_DEV_ID, 0, 0, 0, 0, 0]],
        spi_cs := False\<rparr>)"
proof -
  have "dev_id_bytes w25q128jv_world = [0xef, 0x70, 0x18, 0, 0, 0]"
    by (simp add: dev_id_bytes_def w25q128jv_world_def idle_world_def stream_of_def
        upt_conv_Cons)
  then show ?thesis
    by (simp add: dataflash_probe_atmel_closed probe_table_w25q128jv cfg_winbond_def
        zero_descriptor_def w25q128jv_world_def idle_world_def)
qed

text \<open>
  Claim C2 at its input: the id bytes ef 70 18 00 00 against the Winbond table. The
  probe succeeds with \<open>pages = 256\<close> and \<open>page_size = 256\<close> and leaves \<open>is_spinor\<close>
  at 0, not 1. (It also stores the address of the entry, the twentieth of the table,
  in \<open>page_offset\<close>, and leaves \<open>is_power_2\<close> at 0.)
\<close>

theorem probe_w25q128jv_leaves_is_spinor_clear:
  "fst (dataflash_probe_atmel cfg_winbond zero_descriptor w25q128jv_world) = 0 \<and>
   pages (fst (snd (dataflash_probe_atmel cfg_winbond zero_descriptor w25q128jv_world)))
     = 256 \<and>
   page_size (fst (snd (dataflash_probe_atmel cfg_winbond zero_descriptor w25q128jv_world)))
     = 256 \<and>
   is_spinor (fst (snd (dataflash_probe_atmel cfg_winbond zero_descriptor w25q128jv_world)))
     = 0 \<and>
   is_spinor (fst (snd (dataflash_probe_atmel cfg_winbond zero_descriptor w25q128jv_world)))
     \<noteq> 1"
  by (simp add: probe_w25q128jv_result)

text \<open>
  No path through the probe writes \<open>is_spinor\<close>, \<open>is_power_2\<close> or \<open>family\<close>: see
  \<open>dataflash_probe_atmel_keeps\<close>. The two functions that do set \<open>is_spinor\<close> for NOR
  parts, \<open>w_25q128_desc_init\<close> and \<open>df_n25q_desc_init\<close>, are reached from
  \<open>df_desc_init\<close> only, which the probe no longer calls.
\<close>

subsection \<open>The AT45 status decoder\<close>

text \<open>
  Claim C3 as written: density bits 0x14 with the page-size bit clear give 512 pages.
  The decoder gives 1024 pages: 0x14 is \<open>DENSITY_AT45DB021D\<close>, and 512 pages belong to
  \<open>DENSITY_AT45DB011D\<close>, 0x0C.
\<close>

theorem at45_density_0x14_pages_counterexample:
  "fst (df_at45_desc_init zero_descriptor at45_status_0x14_world) = 0 \<and>
   pages (fst (snd (df_at45_desc_init zero_descriptor at45_status_0x14_world))) = 1024 \<and>
   pages (fst (snd (df_at45_desc_init zero_descriptor at45_status_0x14_world))) \<noteq> 512"
  by (simp add: df_at45_desc_init_closed df_at45_decode_def at45_status_0x14_world_def
      idle_world_def stream_of_def zero_descriptor_def density_defs status_bit_defs)

text \<open>
  Claim C3 with the page count the decoder produces. A status byte whose density
  bits are 0x14 and whose page-size bit is clear resolves to 1024 pages of 264 bytes,
  page offset 9, \<open>is_power_2 = 0\<close>; offset 270 splits into page 1, byte 6, and the
  device address is \<open>(1 << 9) | 6 = 518\<close>.
\<close>

theorem at45_density_0x14_scenario:
  assumes "poll_status w 0 AND 0x3c = 0x14"
    and "poll_status w 0 AND STATUS_PAGE_SIZE_AT45 = 0"
    and "df_at45_desc_init d0 w = (ret, d, w')"
  shows "ret = 0 \<and>
         d = d0\<lparr>is_power_2 := 0, pages := 1024, page_size := 264, page_offset := 9\<rparr> \<and>
         division 270 (page_size d) = (1, 6) \<and>
         dataflash_address d 270 w' = 518 \<and>
         dataflash_address d 270 w' = push_bit 9 1 OR 6"
  using assms
  by (auto simp: df_at45_desc_init_closed df_at45_decode_def density_defs
      dataflash_address_def division_def shl_def poll_status_def)

theorem at45_density_0x14_scenario_witness:
  "fst (df_at45_desc_init zero_descriptor at45_status_0x14_world) = 0 \<and>
   fst (snd (df_at45_desc_init zero_descriptor at45_status_0x14_world)) =
     zero_descriptor\<lparr>is_power_2 := 0, pages := 1024, page_size := 264, page_offset := 9\<rparr> \<and>
   dataflash_address (fst (snd (df_at45_desc_init zero_descriptor at45_status_0x14_world)))
     270 (snd (snd (df_at45_desc_init zero_descriptor at45_status_0x14_world))) = 518"
proof -
  let ?r = "df_at45_desc_init zero_descriptor at45_status_0x14_world"
  have s: "poll_status at45_status_0x14_world 0 = 0x14"
    by (simp add: poll_status_def at45_status_0x14_world_def idle_world_def stream_of_def)
  have s1: "poll_status at45_status_0x14_world 0 AND 0x3c = 0x14"
    using s by simp
  have s2: "poll_status at45_status_0x14_world 0
              AND STATUS_PAGE_SIZE_AT45 = 0"
    using s by (simp add: STATUS_PAGE_SIZE_AT45_def)
  have r: "?r = (fst ?r, fst (snd ?r), snd (snd ?r))" by simp
  show ?thesis
    using at45_density_0x14_scenario[OF s1 s2 r] by blast
qed

subsection \<open>Parts that are refused\<close>

text \<open>
  Claim C6. A status byte whose density code is that of the AT45DB1282D (0x10), the
  AT45DB2562D (0x18) or the AT45DB5122D (0x20) makes \<open>df_at45_desc_init\<close>, and
  \<open>df_desc_init\<close> through it, return -1. \<open>df_desc_init\<close> returns -1 as well for a
  vendor byte that is none of Atmel, Micron and Winbond, and for a family code its
  vendor branch does not list. A failure is all the caller gets: no geometry is
  filled in by default.
\<close>

theorem unsupported_parts_fail:
  "(poll_status w 0 AND 0x3c \<in>
      {DENSITY_AT45DB1282D, DENSITY_AT45DB2562D, DENSITY_AT45DB5122D} \<longrightarrow>
      fst (df_at45_desc_init d w) = -1 \<and>
      fst (df_desc_init d MANUFACTURER_ID_ATMEL DF_FAMILY_AT45 w) = -1) \<and>
   (vendor \<notin> {MANUFACTURER_ID_ATMEL, MANUFACTURER_ID_MICRON, MANUFACTURER_ID_WINBOND} \<longrightarrow>
      fst (df_desc_init d vendor fam w) = -1) \<and>
   (fam \<notin> {DF_FAMILY_AT26F, DF_FAMILY_AT26DF, DF_FAMILY_AT45} \<longrightarrow>
      fst (df_desc_init d MANUFACTURER_ID_ATMEL fam w) = -1) \<and>
   (fam \<notin> {DF_FAMILY_M25P, DF_FAMILY_N25Q} \<longrightarrow>
      fst (df_desc_init d MANUFACTURER_ID_MICRON fam w) = -1) \<and>
   (fam \<noteq> WINBOND_W25Q128JV \<longrightarrow>
      fst (df_desc_init d MANUFACTURER_ID_WINBOND fam w) = -1)"
  by (auto simp: df_desc_init_def df_at45_desc_init_closed df_at45_decode_def
      density_defs family_defs df_at25_desc_init_def df_n25q_desc_init_def
      w_25q128_desc_init_def poll_status_def)

theorem unsupported_parts_fail_witness:
  "fst (df_at45_desc_init zero_descriptor at45_status_0x10_world) = -1 \<and>
   fst (df_desc_init zero_descriptor MANUFACTURER_ID_ATMEL DF_FAMILY_AT45
          at45_status_0x10_world) = -1 \<and>
   fst (df_desc_init zero_descriptor 0x01 0x60 at45_status_0x10_world) = -1 \<and>
   fst (df_desc_init zero_descriptor MANUFACTURER_ID_ATMEL 0x60 at45_status_0x10_world) = -1 \<and>
   fst (df_desc_init zero_descriptor MANUFACTURER_ID_MICRON 0x60 at45_status_0x10_world) = -1 \<and>
   fst (df_desc_init zero_descriptor MANUFACTURER_ID_WINBOND 0x60 at45_status_0x10_world) = -1"
proof -
  have s: "poll_status at45_status_0x10_world 0 AND 0x3c
             \<in> {DENSITY_AT45DB1282D, DENSITY_AT45DB2562D, DENSITY_AT45DB5122D}"
    by (simp add: poll_status_def at45_status_0x10_world_def idle_world_def stream_of_def
        density_defs)
  have v: "(0x01 :: u8) \<notin>
             {MANUFACTURER_ID_ATMEL, MANUFACTURER_ID_MICRON, MANUFACTURER_ID_WINBOND}"
    by (simp add: family_defs)
  have f: "(0x60 :: u8) \<notin> {DF_FAMILY_AT26F, DF_FAMILY_AT26DF, DF_FAMILY_AT45}"
    "(0x60 :: u8) \<notin> {DF_FAMILY_M25P, DF_FAMILY_N25Q}"
    "(0x60 :: u8) \<noteq> WINBOND_W25Q128JV"
    by (simp_all add: family_defs)
  show ?thesis
    using unsupported_parts_fail[of at45_status_0x10_world zero_descriptor "0x01" "0x60"] s v f
    by blast
qed

subsection \<open>No table match\<close>

lemma winbond_table_rejects_at26df:
  "\<forall>e \<in> set spi_nor_ids_winbond. \<not> id_matches e [0x1f, 0x47, 0, 0, 0, 0]"
  by (simp add: spi_nor_ids_winbond_def INFO_def sentinel_def id_matches_def)

lemma dev_id_bytes_at26df: "dev_id_bytes at26df_world = [0x1f, 0x47, 0, 0, 0, 0]"
  by (simp add: dev_id_bytes_def at26df_world_def idle_world_def stream_of_def upt_conv_Cons)

text \<open>
  Claim C4 as written: an id with no table entry falls back to the legacy dispatch,
  so an Atmel AT26DF part resolves to 16384 pages of 256 bytes. The probe has the
  dispatch commented out: for an AT26DF321 id and a table without Atmel entries it
  returns 1 and leaves the descriptor zeroed.
\<close>

theorem at26df_without_table_entry_counterexample:
  "fst (dataflash_probe_atmel cfg_winbond zero_descriptor at26df_world) = 1 \<and>
   fst (snd (dataflash_probe_atmel cfg_winbond zero_descriptor at26df_world))
     = zero_descriptor \<and>
   pages (fst (snd (dataflash_probe_atmel cfg_winbond zero_descriptor at26df_world)))
     \<noteq> 16384"
  using winbond_table_rejects_at26df
  by (simp add: dataflash_probe_atmel_closed probe_table_no_match dev_id_bytes_at26df
      cfg_winbond_def zero_descriptor_def)

text \<open>
  Claim C4 as the code has it. An id that matches no entry of the part table makes
  the probe return 1 after the id read alone, with the descriptor untouched. The
  legacy dispatch \<open>df_desc_init\<close> is keyed by the vendor byte and family code it is
  called with: for Atmel AT45 it is the status decode of \<open>df_at45_desc_init\<close>; for
  Atmel AT26F and AT26DF it is the fixed power-of-2 geometry of 16384 pages of 256
  bytes, with no transaction; for Micron M25P and N25Q it is the fixed NOR geometry
  of 16384 pages of 256 bytes.
\<close>

theorem no_table_match_no_legacy_dispatch:
  "((\<forall>e \<in> set (spi_nor_ids cfg). \<not> id_matches e (dev_id_bytes w)) \<longrightarrow>
      fst (dataflash_probe_atmel cfg d w) = 1 \<and>
      fst (snd (dataflash_probe_atmel cfg d w)) = d \<and>
      spi_log (snd (snd (dataflash_probe_atmel cfg d w))) =
        spi_log w @ [[CMD_READ_DEV_ID, 0, 0, 0, 0, 0]]) \<and>
   df_desc_init d MANUFACTURER_ID_ATMEL DF_FAMILY_AT45 w =
     df_at45_desc_init (d\<lparr>family := DF_FAMILY_AT45\<rparr>) w \<and>
   (fam = DF_FAMILY_AT26F \<or> fam = DF_FAMILY_AT26DF \<longrightarrow>
      df_desc_init d MANUFACTURER_ID_ATMEL fam w =
        (0, d\<lparr>family := fam, is_power_2 := 1, pages := 16384, page_size := 256,
              page_offset := 0\<rparr>, w)) \<and>
   (fam = DF_FAMILY_M25P \<or> fam = DF_FAMILY_N25Q \<longrightarrow>
      df_desc_init d MANUFACTURER_ID_MICRON fam w =
        (0, d\<lparr>family := fam, pages := 16384, page_size := 256, page_offset := 0,
              is_spinor := 1\<rparr>, w))"
proof -
  have a: "df_desc_init d MANUFACTURER_ID_ATMEL DF_FAMILY_AT45 w =
     df_at45_desc_init (d\<lparr>family := DF_FAMILY_AT45\<rparr>) w"
    by (auto simp: df_desc_init_def family_defs split_def Let_def prod_eq_iff)
  have b: "fam = DF_FAMILY_AT26F \<or> fam = DF_FAMILY_AT26DF \<longrightarrow>
      df_desc_init d MANUFACTURER_ID_ATMEL fam w =
        (0, d\<lparr>family := fam, is_power_2 := 1, pages := 16384, page_size := 256,
              page_offset := 0\<rparr>, w)"
    by (auto simp: df_desc_init_def df_at25_desc_init_def)
  have c: "fam = DF_FAMILY_M25P \<or> fam = DF_FAMILY_N25Q \<longrightarrow>
      df_desc_init d MANUFACTURER_ID_MICRON fam w =
        (0, d\<lparr>family := fam, pages := 16384, page_size := 256, page_offset := 0,
              is_spinor := 1\<rparr>, w)"
    by (auto simp: df_desc_init_def df_n25q_desc_init_def family_defs)
  show ?thesis
    using a b c by (simp add: dataflash_probe_atmel_closed probe_table_no_match)
qed

theorem no_table_match_no_legacy_dispatch_witness:
  "fst (dataflash_probe_atmel cfg_winbond zero_descriptor at26df_world) = 1 \<and>
   fst (snd (dataflash_probe_atmel cfg_winbond zero_descriptor at26df_world))
     = zero_descriptor \<and>
   df_desc_init zero_descriptor MANUFACTURER_ID_ATMEL DF_FAMILY_AT26DF at26df_world =
     (0, zero_descriptor\<lparr>family := DF_FAMILY_AT26DF, is_power_2 := 1, pages := 16384,
           page_size := 256, page_offset := 0\<rparr>, at26df_world) \<and>
   df_desc_init zero_descriptor MANUFACTURER_ID_MICRON DF_FAMILY_N25Q at26df_world =
     (0, zero_descriptor\<lparr>family := DF_FAMILY_N25Q, pages := 16384, page_size := 256,
           page_offset := 0, is_spinor := 1\<rparr>, at26df_world)"
proof -
  have m: "\<forall>e \<in> set (spi_nor_ids cfg_winbond). \<not> id_matches e (dev_id_bytes at26df_world)"
    using winbond_table_rejects_at26df by (simp add: cfg_winbond_def dev_id_bytes_at26df)
  show ?thesis
    using no_table_match_no_legacy_dispatch[of cfg_winbond at26df_world zero_descriptor
        DF_FAMILY_AT26DF]
      no_table_match_no_legacy_dispatch[of cfg_winbond at26df_world zero_descriptor
        DF_FAMILY_N25Q] m
    by blast
qed

subsection \<open>Which erase a table match leads to\<close>

text \<open>
  Claim C10. A descriptor the probe fills from the zeroed one after a table match
  still has \<open>family = 0\<close>, which is \<open>DF_FAMILY_AT26F\<close>; so whenever the recovery
  button is pressed, \<open>dataflash_recovery\<close> on it is \<open>dataflash_page0_erase_at25\<close>,
  whichever entry matched.
\<close>

theorem table_match_recovers_by_at25_path:
  assumes "dataflash_probe_atmel cfg zero_descriptor w = (0, d, w1)"
  shows "family d = DF_FAMILY_AT26F \<and>
         (\<forall>w2. pio_get_value w2 = 0 \<longrightarrow>
                dataflash_recovery d w2 = dataflash_page0_erase_at25 w2)"
proof -
  have "family d = family zero_descriptor"
    using dataflash_probe_atmel_keeps(1)[of cfg zero_descriptor w] assms by simp
  then have f: "family d = DF_FAMILY_AT26F"
    by (simp add: zero_descriptor_def DF_FAMILY_AT26F_def)
  then show ?thesis
    by (auto simp: dataflash_recovery_def split_def Let_def prod_eq_iff)
qed

theorem table_match_recovers_by_at25_path_witness:
  "family (fst (snd (dataflash_probe_atmel cfg_winbond zero_descriptor w25q128jv_world)))
     = DF_FAMILY_AT26F \<and>
   dataflash_recovery
     (fst (snd (dataflash_probe_atmel cfg_winbond zero_descriptor w25q128jv_world)))
     recovery_pressed_world
   = dataflash_page0_erase_at25 recovery_pressed_world"
proof -
  let ?r = "dataflash_probe_atmel cfg_winbond zero_descriptor w25q128jv_world"
  have r: "?r = (0, fst (snd ?r), snd (snd ?r))"
    by (simp add: probe_w25q128jv_result)
  have p: "pio_get_value recovery_pressed_world = 0"
    by (simp add: pio_get_value_def recovery_pressed_world_def idle_world_def)
  show ?thesis
    using table_match_recovers_by_at25_path[OF r] p by blast
qed

section \<open>Erase polling\<close>

lemma at25_poll_unfold:
  "at25_poll t w =
     (let w1 = w\<lparr>spi_pos := spi_pos w + 2,
                 spi_log := spi_log w @ [[CMD_READ_STATUS_AT25, 0]],
                 spi_cs := False\<rparr>
      in if poll_status w 0 AND STATUS_READY_AT25 = 0 then (Inr t, w1)
         else if t - 1 \<noteq> 0 then at25_poll (t - 1) w1
         else (Inr (t - 1), w1))"
  by (subst at25_poll.simps) (simp add: df_read_status_at25_closed poll_status_def)

lemma at45_poll_unfold:
  "at45_poll t w =
     (let w1 = w\<lparr>spi_pos := spi_pos w + 2,
                 spi_log := spi_log w @ [[CMD_READ_STATUS_AT45, 0]],
                 spi_cs := False\<rparr>
      in if poll_status w 0 AND STATUS_READY_AT45 \<noteq> 0 then (Inr (poll_status w 0), w1)
         else if t - 1 \<noteq> 0 then at45_poll (t - 1) w1
         else (Inr (poll_status w 0), w1))"
  by (subst at45_poll.simps) (simp add: df_read_status_at45_closed poll_status_def)

lemma unat_pred_Suc:
  fixes t :: u32
  assumes "unat t = Suc (Suc n)"
  shows "t - 1 \<noteq> 0" "unat (t - 1) = Suc n"
proof -
  have "t \<noteq> 0" using assms by auto
  then have u: "unat (t - 1) = unat t - 1" by (rule unat_minus_one)
  then show "unat (t - 1) = Suc n" using assms by simp
  then show "t - 1 \<noteq> 0" by auto
qed

lemma unat_one_pred:
  fixes t :: u32
  assumes "unat t = Suc 0"
  shows "t - 1 = 0"
proof -
  have "unat t = unat (1 :: u32)" using assms by simp
  then have "t = 1" by (simp only: word_unat_eq_iff)
  then show ?thesis by simp
qed

lemma at25_poll_result:
  "unat t = Suc n \<Longrightarrow>
   \<exists>t' w'. at25_poll t w = (Inr t', w') \<and>
     (t' \<noteq> 0 \<longleftrightarrow> (\<exists>k<Suc n. poll_status w k AND STATUS_READY_AT25 = 0))"
proof (induction n arbitrary: t w)
  case 0
  then have "t - 1 = 0" "t \<noteq> 0" by (auto dest: unat_one_pred)
  then show ?case
    by (subst at25_poll_unfold) (auto simp: Let_def)
next
  case (Suc n)
  let ?w1 = "w\<lparr>spi_pos := spi_pos w + 2,
                 spi_log := spi_log w @ [[CMD_READ_STATUS_AT25, 0]],
                 spi_cs := False\<rparr>"
  have t: "t - 1 \<noteq> 0" "unat (t - 1) = Suc n" "t \<noteq> 0"
    using unat_pred_Suc[OF Suc.prems] Suc.prems by auto
  show ?case
  proof (cases "poll_status w 0 AND STATUS_READY_AT25 = 0")
    case True
    then have "at25_poll t w = (Inr t, ?w1)"
      by (subst at25_poll_unfold) (simp add: Let_def)
    then show ?thesis using True t by auto
  next
    case False
    then have e: "at25_poll t w = at25_poll (t - 1) ?w1"
      using t by (subst at25_poll_unfold) (simp add: Let_def)
    from Suc.IH[OF t(2), of ?w1] obtain t' w' where
      r: "at25_poll (t - 1) ?w1 = (Inr t', w')"
      and i: "t' \<noteq> 0 \<longleftrightarrow> (\<exists>k<Suc n. poll_status ?w1 k AND STATUS_READY_AT25 = 0)"
      by blast
    have "(\<exists>k<Suc (Suc n). poll_status w k AND STATUS_READY_AT25 = 0) \<longleftrightarrow>
          (\<exists>k<Suc n. poll_status w (Suc k) AND STATUS_READY_AT25 = 0)"
      using False by (subst Ex_less_Suc2) simp
    moreover have "\<And>k. poll_status ?w1 k = poll_status w (Suc k)"
      by (simp add: poll_status_def)
    ultimately show ?thesis using e r i by simp
  qed
qed

lemma at45_poll_result:
  "unat t = Suc n \<Longrightarrow>
   \<exists>s w'. at45_poll t w = (Inr s, w') \<and>
     (s AND STATUS_READY_AT45 \<noteq> 0 \<longleftrightarrow>
        (\<exists>k<Suc n. poll_status w k AND STATUS_READY_AT45 \<noteq> 0))"
proof (induction n arbitrary: t w)
  case 0
  then have "t - 1 = 0" by (auto dest: unat_one_pred)
  then show ?case
    by (subst at45_poll_unfold) (auto simp: Let_def)
next
  case (Suc n)
  let ?w1 = "w\<lparr>spi_pos := spi_pos w + 2,
                 spi_log := spi_log w @ [[CMD_READ_STATUS_AT45, 0]],
                 spi_cs := False\<rparr>"
  have t: "t - 1 \<noteq> 0" "unat (t - 1) = Suc n"
    using unat_pred_Suc[OF Suc.prems] by auto
  show ?case
  proof (cases "poll_status w 0 AND STATUS_READY_AT45 \<noteq> 0")
    case True
    then have "at45_poll t w = (Inr (poll_status w 0), ?w1)"
      by (subst at45_poll_unfold) (simp add: Let_def)
    then show ?thesis using True by auto
  next
    case False
    then have e: "at45_poll t w = at45_poll (t - 1) ?w1"
      using t by (subst at45_poll_unfold) (simp add: Let_def)
    from Suc.IH[OF t(2), of ?w1] obtain s w' where
      r: "at45_poll (t - 1) ?w1 = (Inr s, w')"
      and i: "s AND STATUS_READY_AT45 \<noteq> 0 \<longleftrightarrow>
               (\<exists>k<Suc n. poll_status ?w1 k AND STATUS_READY_AT45 \<noteq> 0)"
      by blast
    have "(\<exists>k<Suc (Suc n). poll_status w k AND STATUS_READY_AT45 \<noteq> 0) \<longleftrightarrow>
          (\<exists>k<Suc n. poll_status w (Suc k) AND STATUS_READY_AT45 \<noteq> 0)"
      using False by (subst Ex_less_Suc2) simp
    moreover have "\<And>k. poll_status ?w1 k = poll_status w (Suc k)"
      by (simp add: poll_status_def)
    ultimately show ?thesis using e r i by simp
  qed
qed

lemma unat_1000: "unat (1000 :: u32) = Suc 999"
  by simp

text \<open>
  Claim C7. Both polling loops start with \<open>timeout = 1000\<close>. The AT25 wait returns 0
  exactly when one of the first 1000 status reads has the ready bit (bit 0) clear, and
  -1 when all 1000 have it set. The AT45 wait returns 0 exactly when one of the first
  1000 status reads has the ready bit (bit 7) set, and -1 otherwise.
\<close>

theorem erase_poll_outcomes:
  "fst (at25_wait_erase w) =
     (if \<exists>k<1000. poll_status w k AND STATUS_READY_AT25 = 0 then 0 else -1) \<and>
   fst (at45_wait_erase w) =
     (if \<exists>k<1000. poll_status w k AND STATUS_READY_AT45 \<noteq> 0 then 0 else -1)"
proof -
  obtain t' w' where a: "at25_poll 1000 w = (Inr t', w')"
    and a': "t' \<noteq> 0 \<longleftrightarrow> (\<exists>k<Suc 999. poll_status w k AND STATUS_READY_AT25 = 0)"
    using at25_poll_result[OF unat_1000, of w] by blast
  obtain s w'' where b: "at45_poll 1000 w = (Inr s, w'')"
    and b': "s AND STATUS_READY_AT45 \<noteq> 0 \<longleftrightarrow>
              (\<exists>k<Suc 999. poll_status w k AND STATUS_READY_AT45 \<noteq> 0)"
    using at45_poll_result[OF unat_1000, of w] by blast
  have "fst (at25_wait_erase w) = (if t' = 0 then -1 else 0)"
    by (simp add: at25_wait_erase_def udelay_def a)
  moreover have "fst (at45_wait_erase w) = (if s AND STATUS_READY_AT45 = 0 then -1 else 0)"
    by (simp add: at45_wait_erase_def udelay_def b)
  ultimately show ?thesis using a' b' by auto
qed

text \<open>
  With every status read returning 0x0c the AT25 loop is done at its first read and
  the AT45 loop runs out.
\<close>

theorem erase_poll_outcomes_witness:
  "fst (at25_wait_erase recovery_pressed_world) = 0 \<and>
   fst (at45_wait_erase recovery_pressed_world) = -1"
proof -
  have p: "\<And>k. poll_status recovery_pressed_world k = 0x0c"
    by (simp add: poll_status_def recovery_pressed_world_def idle_world_def)
  have a: "\<exists>k<1000. poll_status recovery_pressed_world k AND STATUS_READY_AT25 = 0"
    by (rule exI[of _ 0]) (simp add: p STATUS_READY_AT25_def)
  have b: "\<not> (\<exists>k<1000. poll_status recovery_pressed_world k AND STATUS_READY_AT45 \<noteq> 0)"
    by (simp add: p STATUS_READY_AT45_def)
  show ?thesis
    using erase_poll_outcomes[of recovery_pressed_world] a b by simp
qed

section \<open>What the recovery engine sends\<close>

lemma at25_cmd_write_enbale_closed:
  "at25_cmd_write_enbale w =
     (0, w\<lparr>spi_pos := spi_pos w + 1,
           spi_log := spi_log w @ [[CMD_WRITE_ENABLE_AT25]],
           spi_cs := False\<rparr>)"
  by (simp add: at25_cmd_write_enbale_def df_send_command_closed)

lemma at25_cmd_write_status_register_closed:
  "at25_cmd_write_status_register st w =
     (0, w\<lparr>spi_pos := spi_pos w + 2,
           spi_log := spi_log w @ [[CMD_WRITE_STATUS_AT25, st]],
           spi_cs := False\<rparr>)"
  by (simp add: at25_cmd_write_status_register_def df_send_command_closed)

lemma then_ok_reads:
  assumes "\<And>w. read_transactions (snd (f w)) = read_transactions w"
    and "\<And>w. read_transactions (snd (g w)) = read_transactions w"
  shows "read_transactions (snd (then_ok f g w)) = read_transactions w"
  using assms by (simp add: then_ok_def split_def Let_def)

lemma write_enable_reads:
  "read_transactions (snd (at25_cmd_write_enbale w)) = read_transactions w"
  by (simp add: at25_cmd_write_enbale_closed read_transactions_def is_read_transaction_def
      opcode_defs)

lemma write_status_reads:
  "read_transactions (snd (at25_cmd_write_status_register st w)) = read_transactions w"
  by (simp add: at25_cmd_write_status_register_closed read_transactions_def
      is_read_transaction_def opcode_defs)

lemma read_status_at25_reads:
  "read_transactions (snd (df_read_status_at25 w)) = read_transactions w"
  by (simp add: df_read_status_at25_closed read_transactions_def is_read_transaction_def
      opcode_defs)

lemma read_status_at45_reads:
  "read_transactions (snd (df_read_status_at45 w)) = read_transactions w"
  by (simp add: df_read_status_at45_closed read_transactions_def is_read_transaction_def
      opcode_defs)

lemma status_check_reads:
  "read_transactions
     (snd (case df_read_status_at25 w of
             (Inl ret, w5) \<Rightarrow> (ret, w5)
           | (Inr status, w5) \<Rightarrow>
               if status AND (STATUS_SPRL_AT25 OR STATUS_SWP_AT25) \<noteq> 0
               then (-1, w5) else (0, w5)))
   = read_transactions w"
  using read_status_at25_reads[of w]
  by (simp add: df_read_status_at25_closed)

lemma at25_unprotect_reads:
  "read_transactions (snd (at25_unprotect w)) = read_transactions w"
proof -
  let ?w1 = "snd (df_read_status_at25 w)"
  have w1: "read_transactions ?w1 = read_transactions w" by (rule read_status_at25_reads)
  have tail: "\<And>f v. (\<And>w. read_transactions (snd (f w)) = read_transactions w) \<Longrightarrow>
      read_transactions
        (snd (then_ok f
               (then_ok at25_cmd_write_enbale
                 (then_ok (at25_cmd_write_status_register 0)
                   (\<lambda>w4. case df_read_status_at25 w4 of
                           (Inl ret, w5) \<Rightarrow> (ret, w5)
                         | (Inr status, w5) \<Rightarrow>
                             if status AND (STATUS_SPRL_AT25 OR STATUS_SWP_AT25) \<noteq> 0
                             then (-1, w5) else (0, w5)))) v))
      = read_transactions v"
    by (intro then_ok_reads write_enable_reads write_status_reads status_check_reads)
  have f1: "\<And>w. read_transactions
             (snd (then_ok at25_cmd_write_enbale (at25_cmd_write_status_register 0) w))
           = read_transactions w"
    by (intro then_ok_reads write_enable_reads write_status_reads)
  have f2: "\<And>w. read_transactions (snd ((\<lambda>w. (0::int, w)) w)) = read_transactions w"
    by simp
  show ?thesis
    unfolding at25_unprotect_def
    using tail[OF f1, of ?w1] tail[OF f2, of ?w1] w1
    by (simp add: df_read_status_at25_closed)
qed

lemma at25_poll_reads:
  "unat t = Suc n \<Longrightarrow> read_transactions (snd (at25_poll t w)) = read_transactions w"
proof (induction n arbitrary: t w)
  case 0
  then have "t - 1 = 0" by (auto dest: unat_one_pred)
  then show ?case
    by (subst at25_poll_unfold)
      (simp add: Let_def read_transactions_def is_read_transaction_def opcode_defs)
next
  case (Suc n)
  let ?w1 = "w\<lparr>spi_pos := spi_pos w + 2,
                 spi_log := spi_log w @ [[CMD_READ_STATUS_AT25, 0]],
                 spi_cs := False\<rparr>"
  have t: "t - 1 \<noteq> 0" "unat (t - 1) = Suc n"
    using unat_pred_Suc[OF Suc.prems] by auto
  have w1: "read_transactions ?w1 = read_transactions w"
    by (simp add: read_transactions_def is_read_transaction_def opcode_defs)
  have "read_transactions (snd (at25_poll (t - 1) ?w1)) = read_transactions w"
    using Suc.IH[OF t(2), of ?w1] w1 by simp
  then show ?case
    using t w1 by (subst at25_poll_unfold) (simp add: Let_def)
qed

lemma at45_poll_reads:
  "unat t = Suc n \<Longrightarrow> read_transactions (snd (at45_poll t w)) = read_transactions w"
proof (induction n arbitrary: t w)
  case 0
  then have "t - 1 = 0" by (auto dest: unat_one_pred)
  then show ?case
    by (subst at45_poll_unfold)
      (simp add: Let_def read_transactions_def is_read_transaction_def opcode_defs)
next
  case (Suc n)
  let ?w1 = "w\<lparr>spi_pos := spi_pos w + 2,
                 spi_log := spi_log w @ [[CMD_READ_STATUS_AT45, 0]],
                 spi_cs := False\<rparr>"
  have t: "t - 1 \<noteq> 0" "unat (t - 1) = Suc n"
    using unat_pred_Suc[OF Suc.prems] by auto
  have w1: "read_transactions ?w1 = read_transactions w"
    by (simp add: read_transactions_def is_read_transaction_def opcode_defs)
  have "read_transactions (snd (at45_poll (t - 1) ?w1)) = read_transactions w"
    using Suc.IH[OF t(2), of ?w1] w1 by simp
  then show ?case
    using t w1 by (subst at45_poll_unfold) (simp add: Let_def)
qed

lemma at25_wait_erase_reads:
  "read_transactions (snd (at25_wait_erase w)) = read_transactions w"
  using at25_poll_reads[OF unat_1000, of w]
  by (auto simp: at25_wait_erase_def udelay_def split: prod.split sum.split)

lemma at45_wait_erase_reads:
  "read_transactions (snd (at45_wait_erase w)) = read_transactions w"
  using at45_poll_reads[OF unat_1000, of w]
  by (auto simp: at45_wait_erase_def udelay_def split: prod.split sum.split)

lemma df_send_command_reads:
  assumes "take 1 c \<noteq> [CMD_READ_ARRAY_FAST]" "c \<noteq> []"
  shows "read_transactions (snd (snd (df_send_command (Some c) n data m w)))
           = read_transactions w"
proof (cases "n \<noteq> 0 \<and> (m = 0 \<or> data)")
  case True
  then have "unat n \<noteq> 0" by (simp add: unat_eq_0)
  then obtain n' where n: "unat n = Suc n'" by (cases "unat n") auto
  obtain x xs where c: "c = x # xs" using assms(2) by (cases c) auto
  show ?thesis
    using True assms(1)
    by (simp add: df_send_command_closed read_transactions_def is_read_transaction_def n c)
next
  case False
  then show ?thesis by (auto simp: df_send_command_def)
qed

lemma erase_block_reads:
  "read_transactions
     (snd (let (ret, bytes, w3) =
                 df_send_command (Some [CMD_ERASE_BLOCK4K_AT25, 0, 0, 0]) 4 False 0 w2
           in if ret \<noteq> 0 then (ret, w3) else at25_wait_erase w3))
   = read_transactions w2"
  by (simp add: split_def Let_def at25_wait_erase_reads df_send_command_reads opcode_defs)

lemma dataflash_page0_erase_at25_reads:
  "read_transactions (snd (dataflash_page0_erase_at25 w)) = read_transactions w"
  unfolding dataflash_page0_erase_at25_def
  by (intro then_ok_reads at25_unprotect_reads write_enable_reads erase_block_reads)

lemma dataflash_page0_erase_at45_reads:
  "read_transactions (snd (dataflash_page0_erase_at45 w)) = read_transactions w"
  by (simp add: dataflash_page0_erase_at45_def split_def Let_def at45_wait_erase_reads
      df_send_command_reads opcode_defs)

lemma dataflash_recovery_reads:
  "read_transactions (snd (dataflash_recovery d w)) = read_transactions w"
  by (simp add: dataflash_recovery_def split_def Let_def dataflash_page0_erase_at25_reads
      dataflash_page0_erase_at45_reads)

lemma dataflash_probe_atmel_reads:
  "read_transactions (snd (snd (dataflash_probe_atmel cfg d w))) = read_transactions w"
  by (simp add: dataflash_probe_atmel_closed read_transactions_def is_read_transaction_def
      opcode_defs)

lemma read_with_cmd_cases:
  assumes "length cmd = 5"
  shows "read_with_cmd cmd len buf w = (-1, w) \<or>
         (fst (read_with_cmd cmd len buf w) = 0 \<and>
          spi_log (snd (read_with_cmd cmd len buf w)) =
            spi_log w @ [cmd @ replicate (unat len) 0])"
proof (cases "buf \<noteq> 0 \<or> len = 0")
  case True
  then show ?thesis using assms by (simp add: read_with_cmd_closed)
next
  case False
  then show ?thesis by (simp add: read_with_cmd_null)
qed

lemma read_array_reads:
  "length (read_transactions (snd (read_array d offs len buf w)))
     \<le> Suc (length (read_transactions w))"
proof -
  let ?r = "read_with_cmd (read_array_cmd d offs w) len buf w"
  from read_with_cmd_cases[OF length_read_array_cmd, of d offs w len buf w]
  have "spi_log (snd ?r) = spi_log w \<or>
        spi_log (snd ?r) = spi_log w @ [read_array_cmd d offs w @ replicate (unat len) 0]"
    by auto
  then have "length (filter is_read_transaction (spi_log (snd ?r)))
               \<le> Suc (length (filter is_read_transaction (spi_log w)))"
    by auto
  then show ?thesis
    by (simp add: read_array_by_cmd read_transactions_def)
qed

lemma update_image_length_world:
  "snd (update_image_length cfg d offs dst flag w) = snd (read_array d offs (page_size d) dst w)"
  by (simp add: update_image_length_def split_def Let_def)

section \<open>Length resolution and the load\<close>

lemma enable_disable_reads [simp]:
  "read_transactions (at91_spi_enable w) = read_transactions w"
  "read_transactions (at91_spi_disable w) = read_transactions w"
  "read_transactions (at91_spi0_hw_init w) = read_transactions w"
  by (simp_all add: read_transactions_def at91_spi_enable_def at91_spi_disable_def
      at91_spi0_hw_init_def)

lemma update_image_length_kernel:
  "fst (update_image_length cfg d offs dst KERNEL_IMAGE w) =
     (if fst (read_array d offs (page_size d) dst w) \<noteq> 0 then -1
      else kernel_size cfg (ram (snd (read_array d offs (page_size d) dst w))) dst)"
  by (simp add: update_image_length_def split_def Let_def)

lemma update_image_length_dt:
  "fst (update_image_length cfg d offs dst DT_BLOB w) =
     (if fst (read_array d offs (page_size d) dst w) \<noteq> 0 then -1
      else if CONFIG_OF_LIBFDT cfg \<and>
              check_dt_blob_valid cfg (ram (snd (read_array d offs (page_size d) dst w))) dst = 0
      then of_get_dt_total_size cfg (ram (snd (read_array d offs (page_size d) dst w))) dst
      else -1)"
  by (simp add: update_image_length_def split_def Let_def)

lemma load_kernel_parser_fails:
  assumes "CONFIG_LOAD_LINUX cfg"
    and "kernel_size cfg (ram (snd (read_array d (offset img) (page_size d) (dest img) w)))
           (dest img) = -1"
  shows "load_kernel cfg d img w =
           (-1, img, snd (read_array d (offset img) (page_size d) (dest img) w))"
proof -
  have "fst (update_image_length cfg d (offset img) (dest img) KERNEL_IMAGE w) = -1"
    using assms(2) by (simp add: update_image_length_kernel)
  then show ?thesis
    using assms(1)
    by (simp add: load_kernel_def split_def Let_def update_image_length_world)
qed

lemma load_entry_reads:
  "read_transactions (snd (load_entry cfg w)) = read_transactions w"
  by (simp add: load_entry_def split_def Let_def dataflash_recovery_reads
      dataflash_probe_atmel_reads at91_spi_init_def)

lemma spi_flash_loadimage_cases:
  "spi_flash_loadimage cfg img w =
     (let p = dataflash_probe_atmel cfg zero_descriptor
                (at91_spi_enable (snd (at91_spi_init (at91_spi0_hw_init w))))
      in if spi_init_ret w \<noteq> 0 then (-1, img, at91_spi0_hw_init w)
         else if fst p \<noteq> 0 then (-1, img, at91_spi_disable (snd (snd p)))
         else if CONFIG_DATAFLASH_RECOVERY cfg \<and>
                 fst (dataflash_recovery (fst (snd p)) (snd (snd p))) = 0
         then (-2, img, at91_spi_disable (snd (load_entry cfg w)))
         else load_kernel cfg (fst (load_entry cfg w)) img (snd (load_entry cfg w)))"
  by (simp add: spi_flash_loadimage_def load_after_probe_def load_entry_def
      at91_spi_init_def at91_spi0_hw_init_def split_def Let_def)

lemma spi_flash_loadimage_page_rejected:
  assumes "CONFIG_LOAD_LINUX cfg"
    and "kernel_size cfg (ram (snd (kernel_page_read cfg img w))) (dest img) = -1"
  shows "fst (spi_flash_loadimage cfg img w) \<noteq> 0 \<and>
         fst (snd (spi_flash_loadimage cfg img w)) = img \<and>
         length (read_transactions (snd (snd (spi_flash_loadimage cfg img w))))
           \<le> Suc (length (read_transactions w))"
proof -
  let ?d = "fst (load_entry cfg w)" and ?w2 = "snd (load_entry cfg w)"
  let ?p = "dataflash_probe_atmel cfg zero_descriptor
                (at91_spi_enable (snd (at91_spi_init (at91_spi0_hw_init w))))"
  have k: "load_kernel cfg ?d img ?w2 = (-1, img, snd (kernel_page_read cfg img w))"
    using assms unfolding kernel_page_read_def by (rule load_kernel_parser_fails)
  have r: "length (read_transactions (snd (kernel_page_read cfg img w)))
             \<le> Suc (length (read_transactions w))"
    using read_array_reads[of ?d "offset img" "page_size ?d" "dest img" ?w2]
    by (simp add: kernel_page_read_def load_entry_reads)
  have p: "read_transactions (snd (snd ?p)) = read_transactions w"
    by (simp add: dataflash_probe_atmel_reads at91_spi_init_def)
  show ?thesis
    using k r p
    by (simp add: spi_flash_loadimage_cases Let_def load_entry_reads)
qed

lemma spi_flash_loadimage_reaches_resolver:
  assumes "spi_init_ret w = 0"
    and "fst (dataflash_probe_atmel cfg zero_descriptor
                (at91_spi_enable (snd (at91_spi_init (at91_spi0_hw_init w))))) = 0"
    and "CONFIG_DATAFLASH_RECOVERY cfg \<longrightarrow>
           fst (dataflash_recovery
                  (fst (snd (dataflash_probe_atmel cfg zero_descriptor
                     (at91_spi_enable (snd (at91_spi_init (at91_spi0_hw_init w)))))))
                  (snd (snd (dataflash_probe_atmel cfg zero_descriptor
                     (at91_spi_enable (snd (at91_spi_init (at91_spi0_hw_init w)))))))) \<noteq> 0"
    and "CONFIG_LOAD_LINUX cfg"
    and "kernel_size cfg (ram (snd (kernel_page_read cfg img w))) (dest img) = -1"
  shows "spi_flash_loadimage cfg img w = (-1, img, snd (kernel_page_read cfg img w))"
proof -
  have "load_kernel cfg (fst (load_entry cfg w)) img (snd (load_entry cfg w))
          = (-1, img, snd (kernel_page_read cfg img w))"
    using assms(4,5) unfolding kernel_page_read_def by (rule load_kernel_parser_fails)
  then show ?thesis
    using assms(1,2,3) by (auto simp: spi_flash_loadimage_cases Let_def)
qed

lemma store_bytes_const:
  "(\<forall>b \<in> set bs. b = c) \<Longrightarrow> m x = c \<Longrightarrow> store_bytes a bs m x = c"
  by (induction bs arbitrary: a m) auto

lemma read_array_ram_const:
  assumes "buf \<noteq> 0"
    and "\<forall>k. spi_pos w \<le> k \<longrightarrow> spi_in w k = c"
    and "ram w x = c"
  shows "ram (snd (read_array d offs len buf w)) x = c"
proof -
  have "\<forall>b \<in> set (map (\<lambda>i. spi_in w (spi_pos w + 5 + i)) [0..<unat len]). b = c"
    using assms(2) by simp
  then have "store_bytes buf (map (\<lambda>i. spi_in w (spi_pos w + 5 + i)) [0..<unat len]) (ram w) x
               = c"
    using assms(3) by (rule store_bytes_const)
  then show ?thesis
    using assms(1)
    by (simp add: read_array_by_cmd read_with_cmd_closed length_read_array_cmd)
qed

lemma w25q128jv_load_entry:
  assumes "spi_nor_ids cfg = spi_nor_ids_winbond"
  shows "snd (load_entry cfg w25q128jv_world) =
           w25q128jv_world\<lparr>spi_enabled := True, spi_pos := 6,
             spi_log := [[CMD_READ_DEV_ID, 0, 0, 0, 0, 0]], spi_cs := False\<rparr>"
proof -
  let ?w = "at91_spi_enable (snd (at91_spi_init (at91_spi0_hw_init w25q128jv_world)))"
  have "dev_id_bytes ?w = [0xef, 0x70, 0x18, 0, 0, 0]"
    by (simp add: dev_id_bytes_def w25q128jv_world_def idle_world_def stream_of_def
        at91_spi_enable_def at91_spi0_hw_init_def at91_spi_init_def upt_conv_Cons)
  then have p: "dataflash_probe_atmel cfg zero_descriptor ?w =
     (0, zero_descriptor\<lparr>pages := 256, page_size := 256,
           page_offset := spi_nor_ids_addr cfg + 19 * sizeof_flash_info cfg\<rparr>,
      ?w\<lparr>spi_pos := spi_pos ?w + 6,
        spi_log := spi_log ?w @ [[CMD_READ_DEV_ID, 0, 0, 0, 0, 0]],
        spi_cs := False\<rparr>)"
    using assms by (rule dataflash_probe_atmel_w25q128jv)
  have r: "\<And>d v. pio_get_value v \<noteq> 0 \<Longrightarrow> snd (dataflash_recovery d v) = v"
    by (simp add: dataflash_recovery_def)
  show ?thesis
    unfolding load_entry_def p
    by (simp add: r pio_get_value_def w25q128jv_world_def idle_world_def
        at91_spi_enable_def at91_spi0_hw_init_def at91_spi_init_def)
qed

lemma w25q128jv_kernel_page_is_blank:
  assumes "spi_nor_ids cfg = spi_nor_ids_winbond"
  shows "ram (snd (kernel_page_read cfg boot_image w25q128jv_world)) (dest boot_image) = 0"
proof -
  let ?w2 = "snd (load_entry cfg w25q128jv_world)"
  have w2: "?w2 = w25q128jv_world\<lparr>spi_enabled := True, spi_pos := 6,
             spi_log := [[CMD_READ_DEV_ID, 0, 0, 0, 0, 0]], spi_cs := False\<rparr>"
    using assms by (rule w25q128jv_load_entry)
  have a: "\<forall>k. spi_pos ?w2 \<le> k \<longrightarrow> spi_in ?w2 k = 0"
    unfolding w2 by (simp add: w25q128jv_world_def idle_world_def stream_of_def)
  have b: "ram ?w2 (dest boot_image) = 0"
    unfolding w2 by (simp add: w25q128jv_world_def idle_world_def)
  have c: "dest boot_image \<noteq> 0" by (simp add: boot_image_def)
  show ?thesis
    unfolding kernel_page_read_def by (rule read_array_ram_const[OF c a b])
qed

text \<open>
  Claim C9. When the parser selected for a payload fails on the page read at the
  payload's offset (the kernel header parser returns -1, or the device-tree validator
  returns non-zero), \<open>update_image_length\<close> returns -1, which is not zero. For the
  kernel payload \<open>load_kernel\<close> then returns -1 in the state the page read left. For
  the whole call: if the kernel parser fails on the page \<open>kernel_page_read\<close> brings
  in, \<open>spi_flash_loadimage\<close> returns a non-zero code, leaves the request as it was
  and has issued at most one read command, so neither the kernel nor the device-tree
  copy was attempted; and when initialisation and probe succeeded and recovery did
  not end the load, the call returns -1 in the very state the page read left.
\<close>

theorem parser_failure_aborts_with_minus_one:
  "(kernel_size cfg (ram (snd (read_array d offs (page_size d) dst w))) dst = -1 \<longrightarrow>
      fst (update_image_length cfg d offs dst KERNEL_IMAGE w) = -1 \<and>
      fst (update_image_length cfg d offs dst KERNEL_IMAGE w) \<noteq> 0) \<and>
   (check_dt_blob_valid cfg (ram (snd (read_array d offs (page_size d) dst w))) dst \<noteq> 0 \<longrightarrow>
      fst (update_image_length cfg d offs dst DT_BLOB w) = -1 \<and>
      fst (update_image_length cfg d offs dst DT_BLOB w) \<noteq> 0) \<and>
   (CONFIG_LOAD_LINUX cfg \<and>
    kernel_size cfg (ram (snd (read_array d (offset img) (page_size d) (dest img) w)))
      (dest img) = -1 \<longrightarrow>
      load_kernel cfg d img w =
        (-1, img, snd (read_array d (offset img) (page_size d) (dest img) w))) \<and>
   (CONFIG_LOAD_LINUX cfg \<and>
    kernel_size cfg (ram (snd (kernel_page_read cfg img w))) (dest img) = -1 \<longrightarrow>
      fst (spi_flash_loadimage cfg img w) \<noteq> 0 \<and>
      fst (snd (spi_flash_loadimage cfg img w)) = img \<and>
      length (read_transactions (snd (snd (spi_flash_loadimage cfg img w))))
        \<le> Suc (length (read_transactions w)) \<and>
      (spi_init_ret w = 0 \<and>
       fst (dataflash_probe_atmel cfg zero_descriptor
              (at91_spi_enable (snd (at91_spi_init (at91_spi0_hw_init w))))) = 0 \<and>
       (CONFIG_DATAFLASH_RECOVERY cfg \<longrightarrow>
          fst (dataflash_recovery
                 (fst (snd (dataflash_probe_atmel cfg zero_descriptor
                    (at91_spi_enable (snd (at91_spi_init (at91_spi0_hw_init w)))))))
                 (snd (snd (dataflash_probe_atmel cfg zero_descriptor
                    (at91_spi_enable (snd (at91_spi_init (at91_spi0_hw_init w)))))))) \<noteq> 0)
       \<longrightarrow> spi_flash_loadimage cfg img w = (-1, img, snd (kernel_page_read cfg img w))))"
  using load_kernel_parser_fails[of cfg d img w]
    spi_flash_loadimage_page_rejected[of cfg img w]
    spi_flash_loadimage_reaches_resolver[of w cfg img]
  by (simp add: update_image_length_kernel update_image_length_dt)

text \<open>
  A W25Q128JV whose first kernel page reads as zeros, with the parser that wants
  0x27 in the first byte; the constant parsers serve the two resolver conjuncts.
\<close>

theorem parser_failure_aborts_with_minus_one_witness:
  "kernel_size cfg_magic_kernel (\<lambda>a. 0x27) 0 = 16 \<and>
   fst (update_image_length cfg_bad_kernel at45db021d_descriptor 0x8000 0x22000000
          KERNEL_IMAGE w25q128jv_world) = -1 \<and>
   fst (update_image_length (cfg_winbond\<lparr>check_dt_blob_valid := (\<lambda>m a. -1)\<rparr>)
          at45db021d_descriptor 0x4000 0x21000000 DT_BLOB w25q128jv_world) = -1 \<and>
   fst (spi_flash_loadimage cfg_magic_kernel boot_image w25q128jv_world) \<noteq> 0 \<and>
   length (read_transactions
             (snd (snd (spi_flash_loadimage cfg_magic_kernel boot_image w25q128jv_world))))
     \<le> Suc (length (read_transactions w25q128jv_world))"
proof -
  have k: "kernel_size cfg_bad_kernel
             (ram (snd (read_array at45db021d_descriptor 0x8000
                          (page_size at45db021d_descriptor) 0x22000000 w25q128jv_world)))
             0x22000000 = -1"
    by (simp add: cfg_bad_kernel_def)
  have c: "check_dt_blob_valid (cfg_winbond\<lparr>check_dt_blob_valid := (\<lambda>m a. -1)\<rparr>)
             (ram (snd (read_array at45db021d_descriptor 0x4000
                          (page_size at45db021d_descriptor) 0x21000000 w25q128jv_world)))
             0x21000000 \<noteq> 0"
    by simp
  have l: "CONFIG_LOAD_LINUX cfg_magic_kernel"
    by (simp add: cfg_magic_kernel_def cfg_winbond_def)
  have t: "spi_nor_ids cfg_magic_kernel = spi_nor_ids_winbond"
    by (simp add: cfg_magic_kernel_def cfg_winbond_def)
  have p: "kernel_size cfg_magic_kernel
             (ram (snd (kernel_page_read cfg_magic_kernel boot_image w25q128jv_world)))
             (dest boot_image) = -1"
    using w25q128jv_kernel_page_is_blank[OF t] by (simp add: cfg_magic_kernel_def)
  have a: "kernel_size cfg_magic_kernel (\<lambda>a. 0x27) 0 = 16"
    by (simp add: cfg_magic_kernel_def)
  note t1 = parser_failure_aborts_with_minus_one[of cfg_bad_kernel at45db021d_descriptor
        "0x8000" "0x22000000" w25q128jv_world boot_image]
  note t2 = parser_failure_aborts_with_minus_one[of
        "cfg_winbond\<lparr>check_dt_blob_valid := (\<lambda>m a. -1)\<rparr>" at45db021d_descriptor
        "0x4000" "0x21000000" w25q128jv_world boot_image]
  note t3 = parser_failure_aborts_with_minus_one[of cfg_magic_kernel at45db021d_descriptor
        "0x8000" "0x22000000" w25q128jv_world boot_image]
  have r1: "fst (update_image_length cfg_bad_kernel at45db021d_descriptor 0x8000 0x22000000
          KERNEL_IMAGE w25q128jv_world) = -1"
    by (rule conjunct1[OF mp[OF t1[THEN conjunct1] k]])
  have r2: "fst (update_image_length (cfg_winbond\<lparr>check_dt_blob_valid := (\<lambda>m a. -1)\<rparr>)
          at45db021d_descriptor 0x4000 0x21000000 DT_BLOB w25q128jv_world) = -1"
    by (rule conjunct1[OF mp[OF t2[THEN conjunct2, THEN conjunct1] c]])
  have r3: "fst (spi_flash_loadimage cfg_magic_kernel boot_image w25q128jv_world) \<noteq> 0 \<and>
      fst (snd (spi_flash_loadimage cfg_magic_kernel boot_image w25q128jv_world)) = boot_image \<and>
      length (read_transactions
                (snd (snd (spi_flash_loadimage cfg_magic_kernel boot_image w25q128jv_world))))
        \<le> Suc (length (read_transactions w25q128jv_world)) \<and>
      (spi_init_ret w25q128jv_world = 0 \<and>
       fst (dataflash_probe_atmel cfg_magic_kernel zero_descriptor
              (at91_spi_enable (snd (at91_spi_init (at91_spi0_hw_init w25q128jv_world))))) = 0 \<and>
       (CONFIG_DATAFLASH_RECOVERY cfg_magic_kernel \<longrightarrow>
          fst (dataflash_recovery
                 (fst (snd (dataflash_probe_atmel cfg_magic_kernel zero_descriptor
                    (at91_spi_enable (snd (at91_spi_init (at91_spi0_hw_init w25q128jv_world)))))))
                 (snd (snd (dataflash_probe_atmel cfg_magic_kernel zero_descriptor
                    (at91_spi_enable (snd (at91_spi_init (at91_spi0_hw_init w25q128jv_world))))))))
            \<noteq> 0)
       \<longrightarrow> spi_flash_loadimage cfg_magic_kernel boot_image w25q128jv_world =
             (-1, boot_image, snd (kernel_page_read cfg_magic_kernel boot_image w25q128jv_world)))"
    by (rule mp[OF t3[THEN conjunct2, THEN conjunct2, THEN conjunct2] conjI[OF l p]])
  show ?thesis
    using a r1 r2 r3[THEN conjunct1] r3[THEN conjunct2, THEN conjunct2, THEN conjunct1]
    by (intro conjI)
qed

section \<open>Recovery inside the load\<close>




subsection \<open>A run with the protection bits stuck\<close>












end
